theory Spec2Isabelle
  imports Main
begin

section \<open>Strings\<close>

text \<open>
  JavaScript strings are modelled as \<open>string\<close> (a list of characters).
  \<open>index_of pat s\<close> is \<open>s.indexOf(pat)\<close>, with \<open>None\<close> for \<open>-1\<close>.
\<close>

fun index_of :: "string \<Rightarrow> string \<Rightarrow> nat option" where
  "index_of pat [] = (if pat = [] then Some 0 else None)"
| "index_of pat (c # cs) =
     (if take (length pat) (c # cs) = pat then Some 0
      else map_option Suc (index_of pat cs))"

text \<open>
  \<open>String.prototype.replace\<close> with a string pattern replaces the first occurrence of the
  pattern only. The replacement text is expanded by the engine: \<open>$$\<close> is a dollar sign,
  \<open>$&\<close> the matched text, \<open>$`\<close> the text before the match and \<open>$'\<close> the text after it
  (a string pattern has no capture groups, so every other \<open>$\<close> stays as it is).
\<close>

fun get_substitution :: "string \<Rightarrow> string \<Rightarrow> string \<Rightarrow> string \<Rightarrow> string" where
  "get_substitution m pre post [] = []"
| "get_substitution m pre post [c] = [c]"
| "get_substitution m pre post (c # d # ds) =
     (if c = CHR ''$'' then
        (if d = CHR ''$'' then CHR ''$'' # get_substitution m pre post ds
         else if d = CHR ''&'' then m @ get_substitution m pre post ds
         else if d = CHR ''`'' then pre @ get_substitution m pre post ds
         else if d = CHR 0x27 then post @ get_substitution m pre post ds
         else c # get_substitution m pre post (d # ds))
      else c # get_substitution m pre post (d # ds))"

definition replace_first :: "string \<Rightarrow> string \<Rightarrow> string \<Rightarrow> string" where
  "replace_first s pat repl =
     (case index_of pat s of
        None \<Rightarrow> s
      | Some i \<Rightarrow>
          (let pre = take i s; post = drop (i + length pat) s
           in pre @ get_substitution pat pre post repl @ post))"

text \<open>\<open>Array.prototype.join\<close> on strings.\<close>

fun join :: "string \<Rightarrow> string list \<Rightarrow> string" where
  "join sep [] = []"
| "join sep [x] = x"
| "join sep (x # y # ys) = x @ sep @ join sep (y # ys)"

text \<open>Decimal notation of integers, as \<open>ToString\<close> and \<open>JSON.stringify\<close> print them.\<close>

definition digit_char :: "nat \<Rightarrow> char" where
  "digit_char d = char_of (48 + d)"

fun string_of_nat :: "nat \<Rightarrow> string" where
  "string_of_nat n =
     (if n < 10 then [digit_char n]
      else string_of_nat (n div 10) @ [digit_char (n mod 10)])"

definition string_of_int :: "int \<Rightarrow> string" where
  "string_of_int i =
     (if i < 0 then CHR ''-'' # string_of_nat (nat (- i)) else string_of_nat (nat i))"

section \<open>ApiUtil.replaceInputValues\<close>

text \<open>
  \<^verbatim>\<open>
  static replaceInputValues(input, params) {
    let output = input;
    if (params == null) {
      return input;
    }
    for (const [name, value] of Object.entries(params)) {
      output = output.replace('${' + name + '}', value);
    }
    return output;
  }
  \<close>
  The parameter object is given by its entries in property order, each value already
  converted to the string \<open>replace\<close> works with; \<open>None\<close> is a \<open>null\<close> or \<open>undefined\<close>
  parameter object.
\<close>

definition replaceInputValues :: "string \<Rightarrow> (string \<times> string) list option \<Rightarrow> string" where
  "replaceInputValues input params =
     (case params of
        None \<Rightarrow> input
      | Some entries \<Rightarrow>
          foldl (\<lambda>output (name, v). replace_first output (''${'' @ name @ ''}'') v)
            input entries)"

section \<open>JSON documents\<close>

text \<open>
  Immutable JavaScript data is a tree. \<open>J_Undef\<close> is the value \<open>undefined\<close>, which a
  property that is read but absent yields and which \<open>JSON.stringify\<close> leaves out.
  Numbers are integers: the documents of the API carry identifiers and amounts as
  strings or whole numbers.
\<close>

datatype json =
    J_Undef
  | J_Null
  | J_Bool bool
  | J_Num int
  | J_Str string
  | J_Arr "json list"
  | J_Obj "(string \<times> json) list"

type_synonym object = "(string \<times> json) list"

text \<open>Reading a property of an object: \<open>undefined\<close> when it is absent.\<close>

definition property :: "object \<Rightarrow> string \<Rightarrow> json" where
  "property ob k = (case map_of ob k of None \<Rightarrow> J_Undef | Some v \<Rightarrow> v)"

definition array_items :: "json \<Rightarrow> json list" where
  "array_items j = (case j of J_Arr xs \<Rightarrow> xs | _ \<Rightarrow> [])"

text \<open>
  \<open>JSON.stringify\<close>: the text of a document, \<open>None\<close> for \<open>undefined\<close>. Properties whose
  value is \<open>undefined\<close> are left out, an \<open>undefined\<close> array element prints as \<open>null\<close>.
\<close>

definition hex_char :: "nat \<Rightarrow> char" where
  "hex_char d = (if d < 10 then char_of (48 + d) else char_of (87 + d))"

definition quote_char :: "char \<Rightarrow> string" where
  "quote_char c =
     (if c = CHR 0x22 then [CHR 0x5C, CHR 0x22]
      else if c = CHR 0x5C then [CHR 0x5C, CHR 0x5C]
      else if c = CHR 0x08 then [CHR 0x5C, CHR ''b'']
      else if c = CHR 0x0C then [CHR 0x5C, CHR ''f'']
      else if c = CHR 0x0A then [CHR 0x5C, CHR ''n'']
      else if c = CHR 0x0D then [CHR 0x5C, CHR ''r'']
      else if c = CHR 0x09 then [CHR 0x5C, CHR ''t'']
      else if (of_char c :: nat) < 32 then
        [CHR 0x5C, CHR ''u'', CHR ''0'', CHR ''0'',
         hex_char (of_char c div 16), hex_char (of_char c mod 16)]
      else [c])"

definition quote :: "string \<Rightarrow> string" where
  "quote s = CHR 0x22 # concat (map quote_char s) @ [CHR 0x22]"

fun stringify :: "json \<Rightarrow> string option" where
  "stringify J_Undef = None"
| "stringify J_Null = Some ''null''"
| "stringify (J_Bool b) = Some (if b then ''true'' else ''false'')"
| "stringify (J_Num i) = Some (string_of_int i)"
| "stringify (J_Str s) = Some (quote s)"
| "stringify (J_Arr xs) =
     Some (''['' @ join '',''
             (map (\<lambda>x. case stringify x of None \<Rightarrow> ''null'' | Some t \<Rightarrow> t) xs) @ '']'')"
| "stringify (J_Obj ps) =
     Some (''{'' @ join '',''
             (concat (map (\<lambda>p. case stringify (snd p) of
                                  None \<Rightarrow> []
                                | Some t \<Rightarrow> [quote (fst p) @ '':'' @ t]) ps)) @ ''}'')"

section \<open>Util.difference and the targeting option requests\<close>

text \<open>
  \<^verbatim>\<open>
  static difference(left, right) {
    return left.filter((object) => !Util.isIn(object, right));
  }
  static isIn(object, array) {
    const filtered = array.filter((member) => {
      return JSON.stringify(member) === JSON.stringify(object);
    });
    return filtered.length > 0;
  }
  \<close>
  An assigned targeting option is an object of plain data (it is parsed from a response
  of the API or from a cell of the sheet), so it is a document here.
\<close>

definition isIn :: "object \<Rightarrow> object list \<Rightarrow> bool" where
  "isIn object array =
     (let filtered =
            filter (\<lambda>member. stringify (J_Obj member) = stringify (J_Obj object)) array
      in length filtered > 0)"

definition difference :: "object list \<Rightarrow> object list \<Rightarrow> object list" where
  "difference left right = filter (\<lambda>object. \<not> isIn object right) left"

text \<open>
  A JavaScript \<open>Set\<close> keeps its members in insertion order and drops a value that is
  already a member; \<open>[...types]\<close> lists them in that order. The targeting types are
  strings (an enumeration of the API), on which the membership test of \<open>Set\<close> and
  \<open>===\<close> are both equality of values.
\<close>

definition Set_add :: "'a list \<Rightarrow> 'a \<Rightarrow> 'a list" where
  "Set_add s x = (if x \<in> set s then s else s @ [x])"

definition new_Set :: "'a list \<Rightarrow> 'a list" where
  "new_Set xs = foldl Set_add [] xs"

text \<open>
  \<^verbatim>\<open>
  collectUniqueTypes(options) {
    const types = new Set(options.map((option) => option.targetingType));
    return [...types];
  }
  createRequests_(newOptions, oldOptions) {
    const optionsToCreate = Util.difference(newOptions, oldOptions);
    const creationRequests =
        this.collectUniqueTypes(optionsToCreate).map((type) => {
          return {
            targetingType: type,
            assignedTargetingOptions: optionsToCreate.filter(
                (option) => option.targetingType === type)
          };
        });
    return creationRequests;
  }
  deleteRequests(newOptions, oldOptions) {
    const optionsToDelete = Util.difference(oldOptions, newOptions);
    const deletionRequests =
        this.collectUniqueTypes(optionsToDelete).map((type) => {
          return {
            targetingType: type,
            assignedTargetingOptionIds:
                optionsToDelete
                    .filter((option) => option.targetingType === type)
                    .map((option) => option.assignedTargetingOptionId),
          };
        });
    return deletionRequests;
  }
  \<close>
\<close>

definition collectUniqueTypes :: "object list \<Rightarrow> json list" where
  "collectUniqueTypes options =
     (let types = new_Set (map (\<lambda>option. property option ''targetingType'') options)
      in types)"

definition createRequests :: "object list \<Rightarrow> object list \<Rightarrow> object list" where
  "createRequests newOptions oldOptions =
     (let optionsToCreate = difference newOptions oldOptions;
          creationRequests =
            map (\<lambda>type.
                  [(''targetingType'', type),
                   (''assignedTargetingOptions'',
                    J_Arr (map J_Obj
                      (filter (\<lambda>option. property option ''targetingType'' = type)
                         optionsToCreate)))])
                (collectUniqueTypes optionsToCreate)
      in creationRequests)"

definition deleteRequests :: "object list \<Rightarrow> object list \<Rightarrow> object list" where
  "deleteRequests newOptions oldOptions =
     (let optionsToDelete = difference oldOptions newOptions;
          deletionRequests =
            map (\<lambda>type.
                  [(''targetingType'', type),
                   (''assignedTargetingOptionIds'',
                    J_Arr (map (\<lambda>option. property option ''assignedTargetingOptionId'')
                      (filter (\<lambda>option. property option ''targetingType'' = type)
                         optionsToDelete)))])
                (collectUniqueTypes optionsToDelete)
      in deletionRequests)"

section \<open>Objects with identity\<close>

text \<open>
  Entities are compared by reference and assigned to in place, so they live in a store:
  a value is a primitive or the address of an object, the heap lists the objects by
  address, and a new object gets the next address. A plain object is the list of its
  own properties in insertion order; an array is the list of its elements. Property
  names are ordinary field names: inherited properties (methods of the classes) are
  not part of the model, and neither is the rule that puts the properties of a plain
  object whose names are array indices before the others (no field of the API has
  such a name).
\<close>

datatype jsval = V_Undef | V_Null | V_Bool bool | V_Num int | V_Str string | V_Ref nat

datatype obj = Obj "(string \<times> jsval) list" | Arr "jsval list"

type_synonym heap = "obj list"

definition obj_at :: "heap \<Rightarrow> nat \<Rightarrow> obj" where
  "obj_at h a = (if a < length h then h ! a else Obj [])"

definition alloc :: "obj \<Rightarrow> heap \<Rightarrow> nat \<times> heap" where
  "alloc ob h = (length h, h @ [ob])"

text \<open>
  Assignment \<open>ob[k] = v\<close> keeps the position of an existing property and appends a new
  one; \<open>delete ob[k]\<close> removes it; \<open>Object.assign(target, source)\<close> assigns the own
  properties of the source in order.
\<close>

fun set_prop :: "(string \<times> 'v) list \<Rightarrow> string \<Rightarrow> 'v \<Rightarrow> (string \<times> 'v) list" where
  "set_prop [] k v = [(k, v)]"
| "set_prop ((k', v') # ps) k v =
     (if k' = k then (k, v) # ps else (k', v') # set_prop ps k v)"

definition delete_prop :: "(string \<times> 'v) list \<Rightarrow> string \<Rightarrow> (string \<times> 'v) list" where
  "delete_prop ps k = filter (\<lambda>p. fst p \<noteq> k) ps"

definition Object_assign ::
  "(string \<times> 'v) list \<Rightarrow> (string \<times> 'v) list \<Rightarrow> (string \<times> 'v) list" where
  "Object_assign target source = foldl (\<lambda>ps (k, v). set_prop ps k v) target source"

text \<open>The index properties \<open>0\<close>, \<open>1\<close>, ... of an array or a string.\<close>

definition index_keys :: "nat \<Rightarrow> string list" where
  "index_keys n = map string_of_nat [0..<n]"

definition is_digit :: "char \<Rightarrow> bool" where
  "is_digit c = (48 \<le> (of_char c :: nat) \<and> (of_char c :: nat) \<le> 57)"

definition nat_of_digits :: "string \<Rightarrow> nat" where
  "nat_of_digits s = foldl (\<lambda>n c. 10 * n + (of_char c - 48)) 0 s"

definition array_index :: "string \<Rightarrow> nat option" where
  "array_index k =
     (if k \<noteq> [] \<and> list_all is_digit k \<and> (k = ''0'' \<or> hd k \<noteq> CHR ''0'')
      then Some (nat_of_digits k) else None)"

definition own_props :: "heap \<Rightarrow> jsval \<Rightarrow> (string \<times> jsval) list" where
  "own_props h v =
     (case v of
        V_Ref a \<Rightarrow>
          (case obj_at h a of Obj ps \<Rightarrow> ps | Arr xs \<Rightarrow> zip (index_keys (length xs)) xs)
      | V_Str s \<Rightarrow> zip (index_keys (length s)) (map (\<lambda>c. V_Str [c]) s)
      | _ \<Rightarrow> [])"

definition getOwnPropertyNames :: "heap \<Rightarrow> nat \<Rightarrow> string list" where
  "getOwnPropertyNames h a =
     (case obj_at h a of
        Obj ps \<Rightarrow> map fst ps
      | Arr xs \<Rightarrow> index_keys (length xs) @ [''length''])"

text \<open>\<open>get_prop h v k\<close> is \<open>v[k]\<close> for a value that is neither \<open>null\<close> nor \<open>undefined\<close>.\<close>

definition get_prop :: "heap \<Rightarrow> jsval \<Rightarrow> string \<Rightarrow> jsval" where
  "get_prop h v k =
     (case v of
        V_Ref a \<Rightarrow>
          (case obj_at h a of
             Obj ps \<Rightarrow> (case map_of ps k of None \<Rightarrow> V_Undef | Some x \<Rightarrow> x)
           | Arr xs \<Rightarrow>
               (if k = ''length'' then V_Num (int (length xs))
                else case array_index k of
                       None \<Rightarrow> V_Undef
                     | Some i \<Rightarrow> if i < length xs then xs ! i else V_Undef))
      | V_Str s \<Rightarrow>
          (if k = ''length'' then V_Num (int (length s))
           else case array_index k of
                  None \<Rightarrow> V_Undef
                | Some i \<Rightarrow> if i < length s then V_Str [s ! i] else V_Undef)
      | _ \<Rightarrow> V_Undef)"

text \<open>
  \<open>ToString\<close>: a plain object prints as \<open>[object Object]\<close>, an array as its elements
  joined by commas, \<open>null\<close> and \<open>undefined\<close> elements as the empty string. The fuel bounds
  the nesting of arrays by the size of the heap; an array nested in itself prints as
  the empty string where the fuel ends.
\<close>

fun to_string_fuel :: "nat \<Rightarrow> heap \<Rightarrow> jsval \<Rightarrow> string" where
  "to_string_fuel n h V_Undef = ''undefined''"
| "to_string_fuel n h V_Null = ''null''"
| "to_string_fuel n h (V_Bool b) = (if b then ''true'' else ''false'')"
| "to_string_fuel n h (V_Num i) = string_of_int i"
| "to_string_fuel n h (V_Str s) = s"
| "to_string_fuel 0 h (V_Ref a) =
     (case obj_at h a of Obj ps \<Rightarrow> ''[object Object]'' | Arr xs \<Rightarrow> [])"
| "to_string_fuel (Suc n) h (V_Ref a) =
     (case obj_at h a of
        Obj ps \<Rightarrow> ''[object Object]''
      | Arr xs \<Rightarrow>
          join '','' (map (\<lambda>x. if x = V_Undef \<or> x = V_Null then []
                               else to_string_fuel n h x) xs))"

definition to_string :: "heap \<Rightarrow> jsval \<Rightarrow> string" where
  "to_string h v = to_string_fuel (length h) h v"

text \<open>
  The document that \<open>JSON.stringify\<close> prints for a value: \<open>None\<close> when the value reaches
  itself (the engine throws a TypeError for a circular structure). A chain of
  references longer than the heap repeats an address, so fuel of the size of the heap
  ends exactly on the circular values.
\<close>

fun to_json_fuel :: "nat \<Rightarrow> heap \<Rightarrow> jsval \<Rightarrow> json option" where
  "to_json_fuel n h V_Undef = Some J_Undef"
| "to_json_fuel n h V_Null = Some J_Null"
| "to_json_fuel n h (V_Bool b) = Some (J_Bool b)"
| "to_json_fuel n h (V_Num i) = Some (J_Num i)"
| "to_json_fuel n h (V_Str s) = Some (J_Str s)"
| "to_json_fuel 0 h (V_Ref a) = None"
| "to_json_fuel (Suc n) h (V_Ref a) =
     (case obj_at h a of
        Obj ps \<Rightarrow>
          map_option J_Obj
            (those (map (\<lambda>p. map_option (Pair (fst p)) (to_json_fuel n h (snd p))) ps))
      | Arr xs \<Rightarrow> map_option J_Arr (those (map (to_json_fuel n h) xs)))"

definition to_json :: "heap \<Rightarrow> jsval \<Rightarrow> json option" where
  "to_json h v = to_json_fuel (length h) h v"

text \<open>
  The objects that \<open>JSON.parse\<close> builds for a document: every array and object of the
  document is a new object of the heap.
\<close>

fun alloc_json :: "json \<Rightarrow> heap \<Rightarrow> jsval \<times> heap"
  and alloc_list :: "json list \<Rightarrow> heap \<Rightarrow> jsval list \<times> heap" where
  "alloc_json J_Undef h = (V_Undef, h)"
| "alloc_json J_Null h = (V_Null, h)"
| "alloc_json (J_Bool b) h = (V_Bool b, h)"
| "alloc_json (J_Num i) h = (V_Num i, h)"
| "alloc_json (J_Str s) h = (V_Str s, h)"
| "alloc_json (J_Arr xs) h =
     (case alloc_list xs h of (vs, h1) \<Rightarrow>
        (case alloc (Arr vs) h1 of (a, h2) \<Rightarrow> (V_Ref a, h2)))"
| "alloc_json (J_Obj ps) h =
     (case alloc_list (map snd ps) h of (vs, h1) \<Rightarrow>
        (case alloc (Obj (Object_assign [] (zip (map fst ps) vs))) h1 of
           (a, h2) \<Rightarrow> (V_Ref a, h2)))"
| "alloc_list [] h = ([], h)"
| "alloc_list (x # xs) h =
     (case alloc_json x h of (v, h1) \<Rightarrow>
        (case alloc_list xs h1 of (vs, h2) \<Rightarrow> (v # vs, h2)))"

section \<open>Loose equality\<close>

text \<open>
  The operators \<open>==\<close> and \<open>!=\<close>. \<open>null\<close> and \<open>undefined\<close> equal each other and nothing else;
  two objects are equal when they are the same object; a boolean is compared as the
  number 0 or 1, an object against a primitive as its string, a number against a
  string as the number the string denotes. Of the numeric strings the model reads the
  decimal integers (with a sign and surrounding white space); other notations of a
  number are not numbers of the model.
\<close>

definition is_space :: "char \<Rightarrow> bool" where
  "is_space c = ((of_char c :: nat) \<in> {9, 10, 11, 12, 13, 32})"

definition trim :: "string \<Rightarrow> string" where
  "trim s = rev (dropWhile is_space (rev (dropWhile is_space s)))"

definition string_to_number :: "string \<Rightarrow> int option" where
  "string_to_number s =
     (let t = trim s
      in if t = [] then Some 0
         else if hd t = CHR ''-'' \<and> tl t \<noteq> [] \<and> list_all is_digit (tl t)
           then Some (- int (nat_of_digits (tl t)))
         else if hd t = CHR ''+'' \<and> tl t \<noteq> [] \<and> list_all is_digit (tl t)
           then Some (int (nat_of_digits (tl t)))
         else if list_all is_digit t then Some (int (nat_of_digits t))
         else None)"

definition to_primitive :: "heap \<Rightarrow> jsval \<Rightarrow> jsval" where
  "to_primitive h v =
     (case v of
        V_Bool b \<Rightarrow> V_Num (if b then 1 else 0)
      | V_Ref a \<Rightarrow> V_Str (to_string h (V_Ref a))
      | _ \<Rightarrow> v)"

fun prim_eq :: "jsval \<Rightarrow> jsval \<Rightarrow> bool" where
  "prim_eq (V_Num a) (V_Num b) = (a = b)"
| "prim_eq (V_Str a) (V_Str b) = (a = b)"
| "prim_eq (V_Num a) (V_Str b) = (string_to_number b = Some a)"
| "prim_eq (V_Str a) (V_Num b) = (string_to_number a = Some b)"
| "prim_eq x y = False"

definition is_nullish :: "jsval \<Rightarrow> bool" where
  "is_nullish v = (v = V_Undef \<or> v = V_Null)"

definition loose_eq :: "heap \<Rightarrow> jsval \<Rightarrow> jsval \<Rightarrow> bool" where
  "loose_eq h x y =
     (if is_nullish x \<or> is_nullish y then is_nullish x \<and> is_nullish y
      else case (x, y) of
             (V_Ref a, V_Ref b) \<Rightarrow> a = b
           | _ \<Rightarrow> prim_eq (to_primitive h x) (to_primitive h y))"

section \<open>Util.getValueByDottedFieldName and DV360Entity.getPatchMask\<close>

text \<open>
  \<^verbatim>\<open>
  static getValueByDottedFieldName(ob, fieldName) {
    if (ob == null) {
      return undefined;
    } else if (fieldName.indexOf('.') == -1) {
      return ob[fieldName];
    } else {
      const firstDotIndex = fieldName.indexOf('.');
      const subObject = ob[fieldName.substring(0, firstDotIndex)];
      const subFieldPath = fieldName.substring(firstDotIndex + 1);
      return Util.getValueByDottedFieldName(subObject, subFieldPath);
    }
  }
  \<close>
\<close>

function getValueByDottedFieldName :: "heap \<Rightarrow> jsval \<Rightarrow> string \<Rightarrow> jsval" where
  "getValueByDottedFieldName h ob fieldName =
     (if is_nullish ob then V_Undef
      else case index_of ''.'' fieldName of
             None \<Rightarrow> get_prop h ob fieldName
           | Some firstDotIndex \<Rightarrow>
               (let subObject = get_prop h ob (take firstDotIndex fieldName);
                    subFieldPath = drop (firstDotIndex + 1) fieldName
                in getValueByDottedFieldName h subObject subFieldPath))"
  by pat_completeness auto
termination
proof (relation "measure (\<lambda>(h, ob, fieldName). length fieldName)", goal_cases)
  case 1
  show ?case by simp
next
  case (2 h ob fieldName i subObject subFieldPath)
  have "\<And>j. index_of ''.'' s = Some j \<Longrightarrow> j < length s" for s
  proof (induction s)
    case Nil
    then show ?case by simp
  next
    case (Cons c cs)
    then show ?case by (auto split: if_splits)
  qed
  from this [OF 2(2)] have "i < length fieldName" .
  with 2 show ?case by simp
qed

text \<open>
  \<^verbatim>\<open>
  class DV360Entity {
    constructor(obj, fieldList) {
      this.fieldList_ = fieldList;
      Object.assign(this, obj);
    }
    getPatchMask(modified) {
      const changedFields =
          Object.getOwnPropertyNames(modified)
              .filter((field) => field != this.primaryIdField_)
              .filter((field) => field != 'updateTime')
              .filter(
                  (field) => Util.getValueByDottedFieldName(modified, field) !=
                      Util.getValueByDottedFieldName(this, field));
      const mask = changedFields.join(',');
      return mask;
    }
  }
  \<close>
  Both entities are objects of the heap, given by their addresses; \<open>this\<close> is the
  original.
\<close>

definition changedFields :: "heap \<Rightarrow> nat \<Rightarrow> nat \<Rightarrow> string list" where
  "changedFields h this modified =
     filter (\<lambda>field. \<not> loose_eq h (getValueByDottedFieldName h (V_Ref modified) field)
                                    (getValueByDottedFieldName h (V_Ref this) field))
       (filter (\<lambda>field. \<not> loose_eq h (V_Str field) (V_Str ''updateTime''))
          (filter (\<lambda>field. \<not> loose_eq h (V_Str field)
                                         (get_prop h (V_Ref this) ''primaryIdField_''))
             (getOwnPropertyNames h modified)))"

definition getPatchMask :: "heap \<Rightarrow> nat \<Rightarrow> nat \<Rightarrow> string" where
  "getPatchMask h this modified =
     (let mask = join '','' (changedFields h this modified) in mask)"

section \<open>Util.modifyUrlQueryString\<close>

text \<open>
  \<^verbatim>\<open>
  static modifyUrlQueryString(url, key, value) {
    let baseUrl, queryString, fragment;
    if (url.indexOf('?') !== -1) {
      [baseUrl, queryString] = url.split('?');
      fragment = queryString.indexOf('#') !== -1 ?
          queryString.substring(queryString.indexOf('#')) : '';
      queryString = queryString.replace(fragment, '');
      const regExp = new RegExp(`(^|&)${key}=[^&]*`, 'g');
      const matches = queryString.match(regExp);
      if (matches) {
        let modified = false;
        matches.forEach((match) => {
          let replacement = '';
          if (!modified) {
            const val = match.substring(match.indexOf('=') + 1);
            replacement = match.replace(val, value);
            modified = true;
          }
          queryString = queryString.replace(match, replacement);
        });
      } else {
        const separator = queryString.length > 0 ? '&' : '';
        queryString += `${separator}${key}=${value}`;
      }
    } else {
      baseUrl = url; queryString = `${key}=${value}`; fragment = '';
    }
    return `${baseUrl}?${queryString}${fragment}`;
  }
  \<close>
  The key is a word of letters (\<open>filter\<close> or \<open>pageToken\<close>), so it stands for itself
  in the regular expression: a match is a parameter of the query string that starts
  with the key and \<open>=\<close>, together with the \<open>&\<close> before it unless it is the first one.
\<close>

fun split_on :: "char \<Rightarrow> string \<Rightarrow> string list" where
  "split_on c [] = [[]]"
| "split_on c (x # xs) =
     (if x = c then [] # split_on c xs
      else (case split_on c xs of [] \<Rightarrow> [[x]] | p # ps \<Rightarrow> (x # p) # ps))"

definition regex_matches :: "string \<Rightarrow> string \<Rightarrow> string list" where
  "regex_matches key queryString =
     (let segs = split_on (CHR ''&'') queryString
      in concat (map (\<lambda>(i, seg).
                        if take (length key + 1) seg = key @ ''=''
                        then [if i = 0 then seg else CHR ''&'' # seg] else [])
                     (zip [0..<length segs] segs)))"

definition modifyUrlQueryString :: "string \<Rightarrow> string \<Rightarrow> string \<Rightarrow> string" where
  "modifyUrlQueryString url key v =
     (case split_on (CHR ''?'') url of
        baseUrl # queryString0 # rest \<Rightarrow>
          (let fragment = (case index_of ''#'' queryString0 of
                             None \<Rightarrow> []
                           | Some i \<Rightarrow> drop i queryString0);
               queryString1 = replace_first queryString0 fragment [];
               matches = regex_matches key queryString1;
               queryString2 =
                 (if matches \<noteq> [] then
                    fst (foldl (\<lambda>(queryString, modified) match.
                            (let replacement =
                                   (if \<not> modified then
                                      (let val = (case index_of ''='' match of
                                                    None \<Rightarrow> match
                                                  | Some i \<Rightarrow> drop (i + 1) match)
                                       in replace_first match val v)
                                    else [])
                             in (replace_first queryString match replacement, True)))
                          (queryString1, False) matches)
                  else queryString1 @ (if length queryString1 > 0 then ''&'' else [])
                         @ key @ ''='' @ v)
           in baseUrl @ ''?'' @ queryString2 @ fragment)
      | _ \<Rightarrow> url @ ''?'' @ key @ ''='' @ v)"

section \<open>The resources\<close>

text \<open>
  A \<open>DV360Resource\<close> holds the four fields of its constructor; \<open>primaryIdField\<close> is
  \<open>None\<close> where the constructor call leaves the argument out (the field is then
  \<open>undefined\<close>). \<open>entityFields\<close> is the field list that the entity class made by
  \<open>convertObjectToEntity\<close> passes to the constructor of \<open>DV360Entity\<close>.
\<close>

record resource =
  baseUri :: string
  apiFieldName :: string
  primaryIdField :: "string option"
  filter_r :: string
  entityFields :: "string list"

definition Advertisers :: resource where
  "Advertisers =
     \<lparr>baseUri = ''advertisers?partnerId=${partnerId}'', apiFieldName = ''advertisers'',
      primaryIdField = None, filter_r = [],
      entityFields =
        [''name'', ''advertiserId'', ''partnerId'', ''displayName'', ''entityStatus'',
         ''updateTime'', ''generalConfig'', ''adServerConfig'', ''creativeConfig'',
         ''dataAccessConfig'', ''integrationDetails'', ''servingConfig'']\<rparr>"

definition Campaigns :: resource where
  "Campaigns =
     \<lparr>baseUri = ''advertisers/${advertiserId}/campaigns'', apiFieldName = ''campaigns'',
      primaryIdField = Some ''campaignId'', filter_r = [],
      entityFields =
        [''name'', ''advertiserId'', ''campaignId'', ''displayName'', ''entityStatus'',
         ''updateTime'', ''campaignGoal'', ''campaignFlight'', ''frequencyCap'']\<rparr>"

definition InsertionOrders :: resource where
  "InsertionOrders =
     \<lparr>baseUri = ''advertisers/${advertiserId}/insertionOrders'',
      apiFieldName = ''insertionOrders'',
      primaryIdField = Some ''insertionOrderId'', filter_r = ''campaignId=${campaignId}'',
      entityFields =
        [''name'', ''advertiserId'', ''campaignId'', ''insertionOrderId'', ''displayName'',
         ''insertionOrderType'', ''entityStatus'', ''updateTime'', ''partnerCosts'',
         ''pacing'', ''frequencyCap'', ''integrationDetails'', ''performanceGoal'',
         ''budget'', ''bidStrategy'']\<rparr>"

definition LineItems :: resource where
  "LineItems =
     \<lparr>baseUri = ''advertisers/${advertiserId}/lineItems'', apiFieldName = ''lineItems'',
      primaryIdField = Some ''lineItemId'',
      filter_r = ''campaignId=${campaignId} AND insertionOrderId=${insertionOrderId}'',
      entityFields =
        [''name'', ''advertiserId'', ''campaignId'', ''insertionOrderId'', ''lineItemId'',
         ''displayName'', ''lineItemType'', ''entityStatus'', ''updateTime'',
         ''partnerCosts'', ''flight'', ''budget'', ''pacing'', ''frequencyCap'',
         ''partnerRevenueModel'', ''conversionCounting'', ''creativeIds'', ''bidStrategy'',
         ''integrationDetails'', ''inventorySourceIds'', ''targetingExpansion'',
         ''warningMessages'', ''mobileApp'']\<rparr>"

definition Creatives :: resource where
  "Creatives =
     \<lparr>baseUri = ''advertisers/${advertiserId}/creatives'', apiFieldName = ''creatives'',
      primaryIdField = Some ''creativeId'', filter_r = ''lineItemIds:${lineItemId}'',
      entityFields =
        [''name'', ''advertiserId'', ''creativeId'', ''cmPlacementId'', ''displayName'',
         ''entityStatus'', ''updateTime'', ''createTime'', ''creativeType'',
         ''hostingSource'', ''dynamic'', ''dimensions'', ''additionalDimensions'',
         ''mediaDuration'', ''creativeAttributes'', ''reviewStatus'', ''assets'',
         ''exitEvents'', ''timerEvents'', ''counterEvents'', ''appendedTag'',
         ''integrationCode'', ''notes'', ''iasCampaignMonitoring'',
         ''companionCreativeIds'', ''skippable'', ''skipOffset'', ''progressOffset'',
         ''universalAdId'', ''thirdPartyUrls'', ''transcodes'', ''trackerUrls'',
         ''jsTrackerUrl'', ''cmTrackingAd'', ''obaIcon'', ''thirdPartyTag'',
         ''requireMraid'', ''requireHtml5'', ''requirePingForAttribution'',
         ''expandingDirection'', ''expandOnHover'', ''vastTagUrl'', ''vpaid'',
         ''html5Video'', ''lineItemIds'', ''mp3Audio'', ''oggAudio'']\<rparr>"

definition LineItemTargetingOptions :: resource where
  "LineItemTargetingOptions =
     \<lparr>baseUri = ''advertisers/${advertiserId}''
                 @ ''/lineItems/${lineItemId}:bulkListLineItemAssignedTargetingOptions'',
      apiFieldName = ''assignedTargetingOptions'',
      primaryIdField = Some ''assignedTargetingOptionId'', filter_r = [],
      entityFields =
        [''name'', ''assignedTargetingOptionId'', ''targetingType'', ''inheritance'']\<rparr>"

definition SearchTargetingOptions :: resource where
  "SearchTargetingOptions =
     \<lparr>baseUri = ''targetingTypes/${targetingType}/''
                 @ ''targetingOptions?advertiserId=${advertiserId}'',
      apiFieldName = ''targetingOptions'',
      primaryIdField = Some ''targetingOptionId'', filter_r = [],
      entityFields = [''name'', ''targetingOptionId'', ''targetingType'']\<rparr>"

text \<open>
  \<open>convertObjectToEntity(result)\<close> is \<open>new Campaign(result)\<close> (and so on): the constructor
  stores a new array of the field names under \<open>fieldList_\<close> and assigns the properties
  of \<open>result\<close>. \<open>entity_doc\<close> is the same entity as a document, for results that are
  only read.
\<close>

definition convertObjectToEntity :: "resource \<Rightarrow> jsval \<Rightarrow> heap \<Rightarrow> jsval \<times> heap" where
  "convertObjectToEntity res result h =
     (case alloc (Arr (map V_Str (entityFields res))) h of (fieldList, h1) \<Rightarrow>
        (case alloc (Obj (Object_assign [(''fieldList_'', V_Ref fieldList)]
                            (own_props h1 result))) h1 of
           (this, h2) \<Rightarrow> (V_Ref this, h2)))"

definition json_own_props :: "json \<Rightarrow> (string \<times> json) list" where
  "json_own_props j =
     (case j of
        J_Obj ps \<Rightarrow> ps
      | J_Arr xs \<Rightarrow> zip (index_keys (length xs)) xs
      | J_Str s \<Rightarrow> zip (index_keys (length s)) (map (\<lambda>c. J_Str [c]) s)
      | _ \<Rightarrow> [])"

definition entity_doc :: "resource \<Rightarrow> json \<Rightarrow> object" where
  "entity_doc res result =
     Object_assign [(''fieldList_'', J_Arr (map J_Str (entityFields res)))]
       (json_own_props result)"

section \<open>The transport\<close>

text \<open>
  \<^verbatim>\<open>
  static executeGenericRequest_(requestUri, requestParams, callback) {
    const baseUrl = ApiUtil.buildApiUrl_(requestUri);
    const params = ApiUtil.buildApiParams_(requestParams);
    let url = baseUrl;
    let morePages = true;
    while (morePages) {
      const response = UrlFetchApp.fetch(url, params);
      if (response.getResponseCode() / 100 !== 2) {
        throw new Error(response.getContentText());
      }
      const result = response.getContentText() ?
          JSON.parse(response.getContentText()) : {};
      callback(result);
      morePages = result.nextPageToken != undefined;
      if (morePages) {
        url = Util.modifyUrlQueryString(url, 'pageToken', result.nextPageToken);
      }
    }
  }
  \<close>
  \<open>UrlFetchApp.fetch\<close> is the external collaborator of the program. It answers the
  request that ends the history of requests so far, with a response or by throwing.
  The body of a response is either a document, which is what \<open>JSON.parse\<close> reads from
  its text, or text that is not a document. Of the parameters of a request, the method
  and the payload are kept; the headers are the same for every request.
\<close>

datatype http_method = GET | POST | PATCH | DELETE

record request =
  req_method :: http_method
  req_url :: string
  req_payload :: "string option"

datatype error = Error string | TypeError string | SyntaxError string

definition error_message :: "error \<Rightarrow> string" where
  "error_message e = (case e of Error m \<Rightarrow> m | TypeError m \<Rightarrow> m | SyntaxError m \<Rightarrow> m)"

datatype body = Document json | Text string

record response =
  responseCode :: int
  content :: body

type_synonym service = "request list \<Rightarrow> error + response"

definition getContentText :: "response \<Rightarrow> string" where
  "getContentText response =
     (case content response of
        Document j \<Rightarrow> (case stringify j of None \<Rightarrow> [] | Some t \<Rightarrow> t)
      | Text t \<Rightarrow> t)"

text \<open>
  \<open>response.getContentText() ? JSON.parse(response.getContentText()) : {}\<close>: the text
  of a document is not empty.
\<close>

definition parsed_content :: "response \<Rightarrow> error + json" where
  "parsed_content response =
     (case content response of
        Document j \<Rightarrow> Inr j
      | Text t \<Rightarrow> if t = [] then Inr (J_Obj []) else Inl (SyntaxError ''Unexpected token''))"

text \<open>
  The state of a run: the heap, and the trace of what the program did to the outside
  (the requests it sent, the cells it wrote and the rows it removed), in order.
\<close>

datatype event = Request request | SheetWrite int int "string list" | SheetDeleteRow int

record state =
  heap :: heap
  trace :: "event list"

fun requests_of :: "event list \<Rightarrow> request list" where
  "requests_of [] = []"
| "requests_of (Request r # es) = r # requests_of es"
| "requests_of (e # es) = requests_of es"

definition buildApiUrl :: "string \<Rightarrow> string" where
  "buildApiUrl requestUri =
     (let apiEndpoint = ''https://displayvideo.googleapis.com''; apiVersion = ''v1''
      in apiEndpoint @ ''/'' @ apiVersion @ ''/'' @ requestUri)"

text \<open>The string of a value of a document, as a template literal inserts it.\<close>

fun json_to_string :: "json \<Rightarrow> string" where
  "json_to_string J_Undef = ''undefined''"
| "json_to_string J_Null = ''null''"
| "json_to_string (J_Bool b) = (if b then ''true'' else ''false'')"
| "json_to_string (J_Num i) = string_of_int i"
| "json_to_string (J_Str s) = s"
| "json_to_string (J_Arr xs) =
     join '','' (map (\<lambda>x. if x = J_Undef \<or> x = J_Null then [] else json_to_string x) xs)"
| "json_to_string (J_Obj ps) = ''[object Object]''"

text \<open>Reading a property of a document that is neither \<open>null\<close> nor \<open>undefined\<close>.\<close>

definition json_get :: "json \<Rightarrow> string \<Rightarrow> json" where
  "json_get j k =
     (case j of
        J_Obj ps \<Rightarrow> property ps k
      | J_Arr xs \<Rightarrow>
          (if k = ''length'' then J_Num (int (length xs))
           else case array_index k of
                  None \<Rightarrow> J_Undef
                | Some i \<Rightarrow> if i < length xs then xs ! i else J_Undef)
      | J_Str s \<Rightarrow>
          (if k = ''length'' then J_Num (int (length s))
           else case array_index k of
                  None \<Rightarrow> J_Undef
                | Some i \<Rightarrow> if i < length s then J_Str [s ! i] else J_Undef)
      | _ \<Rightarrow> J_Undef)"

text \<open>
  A run of a function that sends requests returns a value, throws, or is still
  fetching pages when the pages it is allowed are used up: the loop of
  \<open>executeGenericRequest_\<close> goes on for as long as the service names a next page, so
  every such function takes the number of pages that one request may fetch.

  A callback takes the page, the variable it assigns to (\<open>output\<close> or \<open>resultList\<close>) and
  the heap; an exception thrown in a callback ends the request. The division of the
  response code is that of the reals, so the one code that passes is 200.
\<close>

datatype 'a result = Returns 'a | Throws error | Unfinished

fun fetch_pages ::
  "nat \<Rightarrow> service \<Rightarrow> http_method \<Rightarrow> string option
    \<Rightarrow> (json \<Rightarrow> 'a \<Rightarrow> heap \<Rightarrow> (error + 'a) \<times> heap) \<Rightarrow> string \<Rightarrow> 'a \<Rightarrow> state
    \<Rightarrow> 'a result \<times> state" where
  "fetch_pages 0 srv method payload callback url acc s = (Unfinished, s)"
| "fetch_pages (Suc pages) srv method payload callback url acc s =
     (let s1 = s\<lparr>trace := trace s @ [Request \<lparr>req_method = method, req_url = url,
                                               req_payload = payload\<rparr>]\<rparr>
      in case srv (requests_of (trace s1)) of
           Inl e \<Rightarrow> (Throws e, s1)
         | Inr response \<Rightarrow>
             (if responseCode response \<noteq> 200
              then (Throws (Error (getContentText response)), s1)
              else (case parsed_content response of
                      Inl e \<Rightarrow> (Throws e, s1)
                    | Inr result \<Rightarrow>
                        (case callback result acc (heap s1) of
                           (Inl e, h1) \<Rightarrow> (Throws e, s1\<lparr>heap := h1\<rparr>)
                         | (Inr acc1, h1) \<Rightarrow>
                             (if result = J_Undef \<or> result = J_Null
                              then (Throws (TypeError ''Cannot read properties of null''),
                                    s1\<lparr>heap := h1\<rparr>)
                              else (let nextPageToken = json_get result ''nextPageToken'';
                                        morePages = (nextPageToken \<noteq> J_Undef
                                                     \<and> nextPageToken \<noteq> J_Null)
                                    in if morePages
                                       then fetch_pages pages srv method payload callback
                                              (modifyUrlQueryString url ''pageToken''
                                                 (json_to_string nextPageToken))
                                              acc1 (s1\<lparr>heap := h1\<rparr>)
                                       else (Returns acc1, s1\<lparr>heap := h1\<rparr>)))))))"

definition executeGenericRequest ::
  "nat \<Rightarrow> service \<Rightarrow> string \<Rightarrow> http_method \<Rightarrow> string option
    \<Rightarrow> (json \<Rightarrow> 'a \<Rightarrow> heap \<Rightarrow> (error + 'a) \<times> heap) \<Rightarrow> 'a \<Rightarrow> state
    \<Rightarrow> 'a result \<times> state" where
  "executeGenericRequest pages srv requestUri method payload callback acc s =
     (let baseUrl = buildApiUrl requestUri
      in fetch_pages pages srv method payload callback baseUrl acc s)"

text \<open>
  The four request functions of \<open>ApiUtil\<close>. The payload is the document that
  \<open>JSON.stringify(payload)\<close> prints; the caller takes it from the heap with \<open>snapshot\<close>,
  which throws as \<open>JSON.stringify\<close> does.
\<close>

definition snapshot :: "heap \<Rightarrow> jsval \<Rightarrow> error + json" where
  "snapshot h v =
     (case to_json h v of
        None \<Rightarrow> Inl (TypeError ''Converting circular structure to JSON'')
      | Some j \<Rightarrow> Inr j)"

definition executeApiGetRequest ::
  "nat \<Rightarrow> service \<Rightarrow> string \<Rightarrow> (json \<Rightarrow> 'a \<Rightarrow> heap \<Rightarrow> (error + 'a) \<times> heap) \<Rightarrow> 'a
    \<Rightarrow> state \<Rightarrow> 'a result \<times> state" where
  "executeApiGetRequest pages srv requestUri callback acc s =
     executeGenericRequest pages srv requestUri GET None callback acc s"

definition executeApiPatchRequest ::
  "nat \<Rightarrow> service \<Rightarrow> string \<Rightarrow> json \<Rightarrow> (json \<Rightarrow> 'a \<Rightarrow> heap \<Rightarrow> (error + 'a) \<times> heap)
    \<Rightarrow> 'a \<Rightarrow> state \<Rightarrow> 'a result \<times> state" where
  "executeApiPatchRequest pages srv requestUri payload callback acc s =
     executeGenericRequest pages srv requestUri PATCH (stringify payload) callback acc s"

definition executeApiPostRequest ::
  "nat \<Rightarrow> service \<Rightarrow> string \<Rightarrow> json \<Rightarrow> (json \<Rightarrow> 'a \<Rightarrow> heap \<Rightarrow> (error + 'a) \<times> heap)
    \<Rightarrow> 'a \<Rightarrow> state \<Rightarrow> 'a result \<times> state" where
  "executeApiPostRequest pages srv requestUri payload callback acc s =
     executeGenericRequest pages srv requestUri POST (stringify payload) callback acc s"

definition executeApiDeleteRequest ::
  "nat \<Rightarrow> service \<Rightarrow> string \<Rightarrow> (json \<Rightarrow> 'a \<Rightarrow> heap \<Rightarrow> (error + 'a) \<times> heap) \<Rightarrow> 'a
    \<Rightarrow> state \<Rightarrow> 'a result \<times> state" where
  "executeApiDeleteRequest pages srv requestUri callback acc s =
     executeGenericRequest pages srv requestUri DELETE None callback acc s"

section \<open>DV360Resource\<close>

text \<open>
  The entries of a parameter object as \<open>replaceInputValues\<close> uses them: the own
  properties in order, each value as the string that \<open>replace\<close> inserts.
\<close>

definition entries_of :: "heap \<Rightarrow> jsval \<Rightarrow> (string \<times> string) list option" where
  "entries_of h v =
     (if is_nullish v then None
      else Some (map (\<lambda>(k, x). (k, to_string h x)) (own_props h v)))"

text \<open>A property key: \<open>undefined\<close> used as a key is the name \<open>undefined\<close>.\<close>

definition prop_key :: "string option \<Rightarrow> string" where
  "prop_key k = (case k of None \<Rightarrow> ''undefined'' | Some name \<Rightarrow> name)"

text \<open>
  \<^verbatim>\<open>
  buildListUri_(parameters) {
    let uri = this.baseUri_;
    if (this.filter_ !== '') {
      uri = Util.modifyUrlQueryString(uri, 'filter', this.filter_);
    }
    return ApiUtil.replaceInputValues(uri, parameters);
  }
  buildCreateUri_(params) {
    return ApiUtil.replaceInputValues(this.baseUri_, params);
  }
  buildPatchUri_(entity, modified) {
    const patchMask = entity.getPatchMask(modified);
    return this.buildSingleEntityUri_(entity) + '?updateMask=' + patchMask;
  }
  buildSingleEntityUri_(params) {
    return ApiUtil.replaceInputValues(
        this.baseUri_ + '/' + this.getPrimaryId(params),
        Object.assign({}, params)  // to strip methods off object
    );
  }
  getPrimaryId(entity) {
    return entity[this.primaryIdField_];
  }
  \<close>
\<close>

definition buildListUri :: "resource \<Rightarrow> (string \<times> string) list option \<Rightarrow> string" where
  "buildListUri res parameters =
     (let uri = baseUri res;
          uri1 = (if filter_r res \<noteq> [] then modifyUrlQueryString uri ''filter'' (filter_r res)
                  else uri)
      in replaceInputValues uri1 parameters)"

definition getPrimaryId :: "heap \<Rightarrow> resource \<Rightarrow> nat \<Rightarrow> jsval" where
  "getPrimaryId h res entity = get_prop h (V_Ref entity) (prop_key (primaryIdField res))"

definition buildCreateUri :: "heap \<Rightarrow> resource \<Rightarrow> nat \<Rightarrow> string" where
  "buildCreateUri h res params = replaceInputValues (baseUri res) (entries_of h (V_Ref params))"

definition buildSingleEntityUri :: "heap \<Rightarrow> resource \<Rightarrow> nat \<Rightarrow> string" where
  "buildSingleEntityUri h res params =
     replaceInputValues (baseUri res @ ''/'' @ to_string h (getPrimaryId h res params))
       (entries_of h (V_Ref params))"

definition buildPatchUri :: "heap \<Rightarrow> resource \<Rightarrow> nat \<Rightarrow> nat \<Rightarrow> string" where
  "buildPatchUri h res entity modified =
     (let patchMask = getPatchMask h entity modified
      in buildSingleEntityUri h res entity @ ''?updateMask='' @ patchMask)"

text \<open>
  \<^verbatim>\<open>
  list(parameters) {
    const resultList = [];
    ApiUtil.executeApiGetRequest(this.buildListUri_(parameters), (result) => {
      if (Object.keys(result).length === 0) return;
      const rowsData = result[this.apiFieldName_];
      resultList.push(...rowsData);
    });
    return resultList.map((result) => this.convertObjectToEntity(result));
  }
  \<close>
  The listed entities are only read by their callers, so they stay documents.
  \<open>json_iterate\<close> gives the elements that the spread \<open>...rowsData\<close> pushes, \<open>None\<close> where
  the value is not iterable.
\<close>

definition json_iterate :: "json \<Rightarrow> json list option" where
  "json_iterate j =
     (case j of
        J_Arr xs \<Rightarrow> Some xs
      | J_Str s \<Rightarrow> Some (map (\<lambda>c. J_Str [c]) s)
      | _ \<Rightarrow> None)"

definition list_callback ::
  "resource \<Rightarrow> json \<Rightarrow> json list \<Rightarrow> heap \<Rightarrow> (error + json list) \<times> heap" where
  "list_callback res result resultList h =
     (if result = J_Undef \<or> result = J_Null
      then (Inl (TypeError ''Cannot convert undefined or null to object''), h)
      else if length (json_own_props result) = 0 then (Inr resultList, h)
      else (let rowsData = json_get result (apiFieldName res)
            in case json_iterate rowsData of
                 None \<Rightarrow> (Inl (TypeError ''rowsData is not iterable''), h)
               | Some rows \<Rightarrow> (Inr (resultList @ rows), h)))"

definition list ::
  "nat \<Rightarrow> service \<Rightarrow> resource \<Rightarrow> (string \<times> string) list option \<Rightarrow> state
    \<Rightarrow> object list result \<times> state" where
  "list pages srv res parameters s =
     (case executeApiGetRequest pages srv (buildListUri res parameters) (list_callback res) [] s of
        (Returns resultList, s1) \<Rightarrow> (Returns (map (entity_doc res) resultList), s1)
      | (Throws e, s1) \<Rightarrow> (Throws e, s1)
      | (Unfinished, s1) \<Rightarrow> (Unfinished, s1))"

text \<open>
  \<^verbatim>\<open>
  get(parameters) {
    let output = null;
    ApiUtil.executeApiGetRequest(
        this.buildSingleEntityUri_(parameters), (result) => {
          output = this.convertObjectToEntity(result);
        });
    return output;
  }
  update(entity) {
    const original = this.get(entity);
    if (original.getPatchMask(entity) === '') {
      return original;
    }
    let output = null;
    ApiUtil.executeApiPatchRequest(
        this.buildPatchUri_(original, entity), entity, (result) => {
          output = this.convertObjectToEntity(result);
        });
    return output;
  }
  create(entity) {
    let output = null;
    const input = Object.assign({}, entity);
    delete input[this.primaryIdField_];
    ApiUtil.executeApiPostRequest(
        this.buildCreateUri_(entity), input, (result) => {
          output = this.convertObjectToEntity(result);
        });
    return output;
  }
  delete(entity) {
    entity.entityStatus = 'ENTITY_STATUS_ARCHIVED';
    this.update(entity);
    ApiUtil.executeApiDeleteRequest(
        this.buildSingleEntityUri_(entity), () => {});
  }
  \<close>
  The entity and the parameters are objects of the heap, given by their addresses.
  The callback that builds an entity first builds the objects of the parsed page.
\<close>

definition entity_callback ::
  "resource \<Rightarrow> json \<Rightarrow> jsval \<Rightarrow> heap \<Rightarrow> (error + jsval) \<times> heap" where
  "entity_callback res result output h =
     (case alloc_json result h of (v, h1) \<Rightarrow>
        (case convertObjectToEntity res v h1 of (entity, h2) \<Rightarrow> (Inr entity, h2)))"

definition get ::
  "nat \<Rightarrow> service \<Rightarrow> resource \<Rightarrow> nat \<Rightarrow> state \<Rightarrow> jsval result \<times> state" where
  "get pages srv res parameters s =
     executeApiGetRequest pages srv (buildSingleEntityUri (heap s) res parameters)
       (entity_callback res) V_Null s"

definition update ::
  "nat \<Rightarrow> service \<Rightarrow> resource \<Rightarrow> nat \<Rightarrow> state \<Rightarrow> jsval result \<times> state" where
  "update pages srv res entity s =
     (case get pages srv res entity s of
        (Returns original, s1) \<Rightarrow>
          (case original of
             V_Ref orig \<Rightarrow>
               (if getPatchMask (heap s1) orig entity = [] then (Returns original, s1)
                else (case snapshot (heap s1) (V_Ref entity) of
                        Inl e \<Rightarrow> (Throws e, s1)
                      | Inr payload \<Rightarrow>
                          executeApiPatchRequest pages srv
                            (buildPatchUri (heap s1) res orig entity) payload
                            (entity_callback res) V_Null s1))
           | _ \<Rightarrow> (Throws (TypeError ''Cannot read properties of null''), s1))
      | (Throws e, s1) \<Rightarrow> (Throws e, s1)
      | (Unfinished, s1) \<Rightarrow> (Unfinished, s1))"

definition create ::
  "nat \<Rightarrow> service \<Rightarrow> resource \<Rightarrow> nat \<Rightarrow> state \<Rightarrow> jsval result \<times> state" where
  "create pages srv res entity s =
     (case alloc (Obj (delete_prop (own_props (heap s) (V_Ref entity))
                         (prop_key (primaryIdField res)))) (heap s) of
        (input, h1) \<Rightarrow>
          (let s1 = s\<lparr>heap := h1\<rparr>
           in case snapshot h1 (V_Ref input) of
                Inl e \<Rightarrow> (Throws e, s1)
              | Inr payload \<Rightarrow>
                  executeApiPostRequest pages srv (buildCreateUri h1 res entity) payload
                    (entity_callback res) V_Null s1))"

text \<open>
  The assignment \<open>entity[k] = v\<close> to a plain object of the heap (entities are plain
  objects; a named property of an array is not part of the model).
\<close>

definition assign_field :: "heap \<Rightarrow> nat \<Rightarrow> string \<Rightarrow> jsval \<Rightarrow> heap" where
  "assign_field h a k v =
     (if a < length h then
        (case h ! a of Obj ps \<Rightarrow> h[a := Obj (set_prop ps k v)] | Arr xs \<Rightarrow> h)
      else h)"

definition archive_status :: "nat \<Rightarrow> state \<Rightarrow> state" where
  "archive_status entity s =
     s\<lparr>heap := assign_field (heap s) entity ''entityStatus''
                  (V_Str ''ENTITY_STATUS_ARCHIVED'')\<rparr>"

definition no_callback :: "json \<Rightarrow> unit \<Rightarrow> heap \<Rightarrow> (error + unit) \<times> heap" where
  "no_callback result u h = (Inr u, h)"

definition delete ::
  "nat \<Rightarrow> service \<Rightarrow> resource \<Rightarrow> nat \<Rightarrow> state \<Rightarrow> unit result \<times> state" where
  "delete pages srv res entity s =
     (let s0 = archive_status entity s
      in case update pages srv res entity s0 of
           (Returns updated, s1) \<Rightarrow>
             executeApiDeleteRequest pages srv (buildSingleEntityUri (heap s1) res entity)
               no_callback () s1
         | (Throws e, s1) \<Rightarrow> (Throws e, s1)
         | (Unfinished, s1) \<Rightarrow> (Unfinished, s1))"

section \<open>LineItemTargetingOptions.bulkUpdate\<close>

text \<open>
  \<^verbatim>\<open>
  listTargetingOptions() {                          // class LineItem
    return DV360.LineItemTargetingOptions.list({
      advertiserId: this.advertiserId,
      lineItemId: this.lineItemId,
    });
  }
  bulkUpdate(lineItem, newOptions) {
    const oldOptions = lineItem.listTargetingOptions();
    const creationRequests = this.createRequests_(newOptions, oldOptions);
    const deletionRequests = this.deleteRequests(newOptions, oldOptions);
    const payload = {
      deleteRequests: deletionRequests,
      createRequests: creationRequests
    };
    const postUri = ApiUtil.replaceInputValues(
        'advertisers/${advertiserId}/lineItems/' +
            '${lineItemId}:bulkEditLineItemAssignedTargetingOptions',
        lineItem);
    let output = [];
    ApiUtil.executeApiPostRequest(postUri, payload, (response) => {
      output = response.createdAssignedTargetingOptions || [];
    });
    return output;
  }
  \<close>
\<close>

definition listTargetingOptions ::
  "nat \<Rightarrow> service \<Rightarrow> nat \<Rightarrow> state \<Rightarrow> object list result \<times> state" where
  "listTargetingOptions pages srv this s =
     list pages srv LineItemTargetingOptions
       (Some [(''advertiserId'', to_string (heap s) (get_prop (heap s) (V_Ref this) ''advertiserId'')),
              (''lineItemId'', to_string (heap s) (get_prop (heap s) (V_Ref this) ''lineItemId''))])
       s"

definition json_falsy :: "json \<Rightarrow> bool" where
  "json_falsy j =
     (j = J_Undef \<or> j = J_Null \<or> j = J_Bool False \<or> j = J_Num 0 \<or> j = J_Str [])"

definition bulk_callback :: "json \<Rightarrow> json \<Rightarrow> heap \<Rightarrow> (error + json) \<times> heap" where
  "bulk_callback response output h =
     (if response = J_Undef \<or> response = J_Null
      then (Inl (TypeError ''Cannot read properties of null''), h)
      else (let created = json_get response ''createdAssignedTargetingOptions''
            in (Inr (if json_falsy created then J_Arr [] else created), h)))"

definition bulk_payload :: "object list \<Rightarrow> object list \<Rightarrow> json" where
  "bulk_payload newOptions oldOptions =
     (let creationRequests = createRequests newOptions oldOptions;
          deletionRequests = deleteRequests newOptions oldOptions
      in J_Obj [(''deleteRequests'', J_Arr (map J_Obj deletionRequests)),
                (''createRequests'', J_Arr (map J_Obj creationRequests))])"

definition bulkEditUri :: "heap \<Rightarrow> nat \<Rightarrow> string" where
  "bulkEditUri h lineItem =
     replaceInputValues
       (''advertisers/${advertiserId}/lineItems/''
          @ ''${lineItemId}:bulkEditLineItemAssignedTargetingOptions'')
       (entries_of h (V_Ref lineItem))"

definition bulkUpdate ::
  "nat \<Rightarrow> service \<Rightarrow> nat \<Rightarrow> object list \<Rightarrow> state \<Rightarrow> json result \<times> state" where
  "bulkUpdate pages srv lineItem newOptions s =
     (case listTargetingOptions pages srv lineItem s of
        (Returns oldOptions, s1) \<Rightarrow>
          (let payload = bulk_payload newOptions oldOptions;
               postUri = bulkEditUri (heap s1) lineItem
           in executeApiPostRequest pages srv postUri payload bulk_callback (J_Arr []) s1)
      | (Throws e, s1) \<Rightarrow> (Throws e, s1)
      | (Unfinished, s1) \<Rightarrow> (Unfinished, s1))"

section \<open>DV360Sheet.deleteEntries_ and SheetUtil.deleteSheetRows\<close>

text \<open>
  \<^verbatim>\<open>
  deleteEntries_(objectData) {
    const rowNumbersToDelete = [];
    objectData.forEach((data) => {
      try {
        this.dv360resource_.delete(data.payload);
        const rowNumber = data.sheetIndex + this.sheetConfig_.rangeStartRow;
        rowNumbersToDelete.push(rowNumber);
        this.writeIntoSheetRow(
            rowNumber, this.getLogsColumnNumber_(), ['DELETED']);
      } catch (error) {
        this.handleAPIError_(data, error);
      }
    });
    SheetUtil.deleteSheetRows(this.sheetConfig_, rowNumbersToDelete);
  }
  handleAPIError_(data, error) {
    this.writeIntoSheetRow(
        data.sheetIndex + this.sheetConfig_.rangeStartRow,
        this.getLogsColumnNumber_(), [error.message]);
  }
  getLogsColumnNumber_() {
    return this.headerFields_.indexOf(this.logsColumnName_) + 1;
  }
  static deleteSheetRows(sheetConfig, rowNumbers) {
    const spreadsheet = SpreadsheetApp.getActiveSpreadsheet();
    const sheet = spreadsheet.getSheetByName(sheetConfig.name);
    const reindexedRows = rowNumbers.map((number, index) => number - index);
    reindexedRows.forEach((number) => sheet.deleteRow(number));
  }
  \<close>
  The spreadsheet is the other external collaborator. Its rows are a list, numbered
  from 1; \<open>sheet.deleteRow(n)\<close> removes row \<open>n\<close> and throws when there is no such row.
  Writing a cell is recorded in the trace and taken to succeed.
\<close>

record rowData =
  payload :: nat
  sheetIndex :: nat
  action :: string
  targetingOptions :: "object list"

record sheet =
  dv360resource :: resource
  rangeStartRow :: int
  headerFields :: "string list"

fun indexOf :: "'a list \<Rightarrow> 'a \<Rightarrow> int" where
  "indexOf [] x = - 1"
| "indexOf (y # ys) x =
     (if y = x then 0 else (let i = indexOf ys x in if i < 0 then - 1 else i + 1))"

definition getLogsColumnNumber :: "sheet \<Rightarrow> int" where
  "getLogsColumnNumber sh = indexOf (headerFields sh) ''_logs'' + 1"

definition writeIntoSheetRow :: "int \<Rightarrow> int \<Rightarrow> string list \<Rightarrow> state \<Rightarrow> state" where
  "writeIntoSheetRow rowNumber colNumber rowData s =
     s\<lparr>trace := trace s @ [SheetWrite rowNumber colNumber rowData]\<rparr>"

definition handleAPIError :: "sheet \<Rightarrow> rowData \<Rightarrow> error \<Rightarrow> state \<Rightarrow> state" where
  "handleAPIError sh data e s =
     writeIntoSheetRow (int (sheetIndex data) + rangeStartRow sh) (getLogsColumnNumber sh)
       [error_message e] s"

fun deleteEntries_rows ::
  "nat \<Rightarrow> service \<Rightarrow> sheet \<Rightarrow> rowData list \<Rightarrow> int list \<Rightarrow> state
    \<Rightarrow> int list result \<times> state" where
  "deleteEntries_rows pages srv sh [] rowNumbersToDelete s = (Returns rowNumbersToDelete, s)"
| "deleteEntries_rows pages srv sh (data # rest) rowNumbersToDelete s =
     (case delete pages srv (dv360resource sh) (payload data) s of
        (Returns u, s1) \<Rightarrow>
          (let rowNumber = int (sheetIndex data) + rangeStartRow sh
           in deleteEntries_rows pages srv sh rest (rowNumbersToDelete @ [rowNumber])
                (writeIntoSheetRow rowNumber (getLogsColumnNumber sh) [''DELETED''] s1))
      | (Throws e, s1) \<Rightarrow>
          deleteEntries_rows pages srv sh rest rowNumbersToDelete (handleAPIError sh data e s1)
      | (Unfinished, s1) \<Rightarrow> (Unfinished, s1))"

text \<open>
  For the properties: the rows of \<open>objectData\<close> whose call of \<open>delete\<close> returned, in
  the pass that \<open>deleteEntries_\<close> makes over them.
\<close>

fun deleted_rows ::
  "nat \<Rightarrow> service \<Rightarrow> sheet \<Rightarrow> rowData list \<Rightarrow> state \<Rightarrow> rowData list" where
  "deleted_rows pages srv sh [] s = []"
| "deleted_rows pages srv sh (data # rest) s =
     (case delete pages srv (dv360resource sh) (payload data) s of
        (Returns u, s1) \<Rightarrow>
          data # deleted_rows pages srv sh rest
                   (writeIntoSheetRow (int (sheetIndex data) + rangeStartRow sh)
                      (getLogsColumnNumber sh) [''DELETED''] s1)
      | (Throws e, s1) \<Rightarrow> deleted_rows pages srv sh rest (handleAPIError sh data e s1)
      | (Unfinished, s1) \<Rightarrow> [])"

definition deleteRow :: "int \<Rightarrow> 'r list \<Rightarrow> 'r list option" where
  "deleteRow n rows =
     (if 1 \<le> n \<and> n \<le> int (length rows)
      then Some (take (nat n - 1) rows @ drop (nat n) rows) else None)"

definition reindexedRows :: "int list \<Rightarrow> int list" where
  "reindexedRows rowNumbers =
     map (\<lambda>(number, index). number - int index) (zip rowNumbers [0..<length rowNumbers])"

fun deleteRows ::
  "int list \<Rightarrow> state \<Rightarrow> 'r list \<Rightarrow> (error + unit) \<times> state \<times> 'r list" where
  "deleteRows [] s rows = (Inr (), s, rows)"
| "deleteRows (number # rest) s rows =
     (let s1 = s\<lparr>trace := trace s @ [SheetDeleteRow number]\<rparr>
      in case deleteRow number rows of
           None \<Rightarrow> (Inl (Error ''Those rows are out of bounds.''), s1, rows)
         | Some rows1 \<Rightarrow> deleteRows rest s1 rows1)"

definition deleteSheetRows ::
  "int list \<Rightarrow> state \<Rightarrow> 'r list \<Rightarrow> (error + unit) \<times> state \<times> 'r list" where
  "deleteSheetRows rowNumbers s rows = deleteRows (reindexedRows rowNumbers) s rows"

definition deleteEntries ::
  "nat \<Rightarrow> service \<Rightarrow> sheet \<Rightarrow> rowData list \<Rightarrow> state \<Rightarrow> 'r list
    \<Rightarrow> unit result \<times> state \<times> 'r list" where
  "deleteEntries pages srv sh objectData s rows =
     (case deleteEntries_rows pages srv sh objectData [] s of
        (Returns rowNumbersToDelete, s1) \<Rightarrow>
          (case deleteSheetRows rowNumbersToDelete s1 rows of
             (Inr u, s2, rows2) \<Rightarrow> (Returns u, s2, rows2)
           | (Inl e, s2, rows2) \<Rightarrow> (Throws e, s2, rows2))
      | (Throws e, s1) \<Rightarrow> (Throws e, s1, rows)
      | (Unfinished, s1) \<Rightarrow> (Unfinished, s1, rows))"

section \<open>Services for concrete runs\<close>

text \<open>
  Services to run the program against: one answers every request with the same
  document, one refuses every request, one has two pages, and one refuses the DELETE
  requests only.
\<close>

definition constant_service :: "json \<Rightarrow> service" where
  "constant_service page reqs = Inr \<lparr>responseCode = 200, content = Document page\<rparr>"


text \<open>
  A service with two pages: it answers with the second page a request whose address
  carries the page token and with the first page any other request.
\<close>

fun is_infix :: "string \<Rightarrow> string \<Rightarrow> bool" where
  "is_infix pat [] = (pat = [])"
| "is_infix pat (c # cs) = (take (length pat) (c # cs) = pat \<or> is_infix pat cs)"

definition paging_service :: "string \<Rightarrow> json \<Rightarrow> json \<Rightarrow> service" where
  "paging_service token first_page second_page reqs =
     (case rev reqs of
        [] \<Rightarrow> Inr \<lparr>responseCode = 200, content = Document first_page\<rparr>
      | r # earlier \<Rightarrow>
          (if is_infix (''pageToken='' @ token) (req_url r)
           then Inr \<lparr>responseCode = 200, content = Document second_page\<rparr>
           else Inr \<lparr>responseCode = 200, content = Document first_page\<rparr>))"

definition refusing_delete_service :: "json \<Rightarrow> string \<Rightarrow> service" where
  "refusing_delete_service page message reqs =
     (case rev reqs of
        [] \<Rightarrow> Inr \<lparr>responseCode = 200, content = Document page\<rparr>
      | r # earlier \<Rightarrow>
          (if req_method r = DELETE then Inr \<lparr>responseCode = 403, content = Text message\<rparr>
           else Inr \<lparr>responseCode = 200, content = Document page\<rparr>))"

text \<open>
  The loop of \<open>executeGenericRequest_\<close> fetches another page after an answer only if
  the answer is accepted and its document names a next page.
\<close>

definition names_next_page :: "error + response \<Rightarrow> bool" where
  "names_next_page answer =
     (case answer of
        Inl e \<Rightarrow> False
      | Inr response \<Rightarrow>
          responseCode response = 200
          \<and> (case parsed_content response of
                Inl e \<Rightarrow> False
              | Inr result \<Rightarrow>
                  json_get result ''nextPageToken'' \<noteq> J_Undef
                  \<and> json_get result ''nextPageToken'' \<noteq> J_Null))"

text \<open>The requests sent between two states of a run.\<close>

definition sent :: "state \<Rightarrow> state \<Rightarrow> request list" where
  "sent s s1 = requests_of (drop (length (trace s)) (trace s1))"

section \<open>Properties of the targeting option requests\<close>

lemma isIn_iff:
  "isIn ob xs \<longleftrightarrow> (\<exists>m\<in>set xs. stringify (J_Obj m) = stringify (J_Obj ob))"
  unfolding isIn_def Let_def by (simp add: filter_empty_conv)

lemma difference_filter:
  "difference left right =
     filter (\<lambda>ob. \<forall>m\<in>set right. stringify (J_Obj m) \<noteq> stringify (J_Obj ob)) left"
  unfolding difference_def by (simp add: isIn_iff)

lemma set_foldl_Set_add: "set (foldl Set_add acc xs) = set acc \<union> set xs"
  by (induction xs arbitrary: acc) (auto simp: Set_add_def)

lemma distinct_foldl_Set_add: "distinct acc \<Longrightarrow> distinct (foldl Set_add acc xs)"
  by (induction xs arbitrary: acc) (auto simp: Set_add_def)

lemma set_collectUniqueTypes:
  "set (collectUniqueTypes options) =
     (\<lambda>option. property option ''targetingType'') ` set options"
  by (simp add: collectUniqueTypes_def new_Set_def set_foldl_Set_add)

lemma distinct_collectUniqueTypes: "distinct (collectUniqueTypes options)"
  by (simp add: collectUniqueTypes_def new_Set_def distinct_foldl_Set_add)

lemma createRequests_types:
  "map (\<lambda>g. property g ''targetingType'') (createRequests newOptions oldOptions)
     = collectUniqueTypes (difference newOptions oldOptions)"
  by (simp add: createRequests_def Let_def property_def comp_def)

lemma deleteRequests_types:
  "map (\<lambda>g. property g ''targetingType'') (deleteRequests newOptions oldOptions)
     = collectUniqueTypes (difference oldOptions newOptions)"
  by (simp add: deleteRequests_def Let_def property_def comp_def)

lemma createRequests_group:
  "g \<in> set (createRequests newOptions oldOptions) \<Longrightarrow>
     array_items (property g ''assignedTargetingOptions'') =
       map J_Obj
         (filter (\<lambda>option. property option ''targetingType'' = property g ''targetingType'')
            (difference newOptions oldOptions))"
  by (auto simp: createRequests_def Let_def property_def array_items_def)

lemma deleteRequests_group:
  "g \<in> set (deleteRequests newOptions oldOptions) \<Longrightarrow>
     array_items (property g ''assignedTargetingOptionIds'') =
       map (\<lambda>option. property option ''assignedTargetingOptionId'')
         (filter (\<lambda>option. property option ''targetingType'' = property g ''targetingType'')
            (difference oldOptions newOptions))"
  by (auto simp: deleteRequests_def Let_def property_def array_items_def)

lemma reconcile_example:
  assumes "stringify (J_Obj A) \<noteq> stringify (J_Obj B)"
    and "stringify (J_Obj A) \<noteq> stringify (J_Obj C)"
    and "stringify (J_Obj B) \<noteq> stringify (J_Obj C)"
  shows "createRequests [B, C] [A, B] =
           [[(''targetingType'', property C ''targetingType''),
             (''assignedTargetingOptions'', J_Arr [J_Obj C])]]"
    and "deleteRequests [B, C] [A, B] =
           [[(''targetingType'', property A ''targetingType''),
             (''assignedTargetingOptionIds'',
              J_Arr [property A ''assignedTargetingOptionId''])]]"
proof -
  from assms have dn: "difference [B, C] [A, B] = [C]"
    by (auto simp: difference_filter)
  from assms have dl: "difference [A, B] [B, C] = [A]"
    by (auto simp: difference_filter)
  show "createRequests [B, C] [A, B] =
           [[(''targetingType'', property C ''targetingType''),
             (''assignedTargetingOptions'', J_Arr [J_Obj C])]]"
    unfolding createRequests_def Let_def dn
    by (simp add: collectUniqueTypes_def new_Set_def Set_add_def)
  show "deleteRequests [B, C] [A, B] =
           [[(''targetingType'', property A ''targetingType''),
             (''assignedTargetingOptionIds'',
              J_Arr [property A ''assignedTargetingOptionId''])]]"
    unfolding deleteRequests_def Let_def dl
    by (simp add: collectUniqueTypes_def new_Set_def Set_add_def)
qed

text \<open>
  Claim C4. With the current options \<open>[A, B]\<close> and the desired options \<open>[B, C]\<close>, where
  \<open>A\<close>, \<open>B\<close> and \<open>C\<close> differ in their serialized form, the payload of the bulk edit has
  exactly one creation request, for the targeting type of \<open>C\<close> and with \<open>C\<close> alone, and
  exactly one deletion request, for the targeting type of \<open>A\<close> and with the identifier
  of \<open>A\<close> alone; \<open>B\<close> is in neither. In general the options to create are the desired
  options whose serialized form no current option has, the options to delete are the
  current options whose serialized form no desired option has, and each side has one
  request per targeting type, which holds exactly the options of that type.
\<close>

theorem reconcile_requests:
  "(stringify (J_Obj A) \<noteq> stringify (J_Obj B) \<and> stringify (J_Obj A) \<noteq> stringify (J_Obj C)
      \<and> stringify (J_Obj B) \<noteq> stringify (J_Obj C) \<longrightarrow>
      bulk_payload [B, C] [A, B] =
        J_Obj [(''deleteRequests'',
                J_Arr [J_Obj [(''targetingType'', property A ''targetingType''),
                              (''assignedTargetingOptionIds'',
                               J_Arr [property A ''assignedTargetingOptionId''])]]),
               (''createRequests'',
                J_Arr [J_Obj [(''targetingType'', property C ''targetingType''),
                              (''assignedTargetingOptions'', J_Arr [J_Obj C])]])])
   \<and> difference newOptions oldOptions =
       filter (\<lambda>ob. \<forall>m\<in>set oldOptions. stringify (J_Obj m) \<noteq> stringify (J_Obj ob)) newOptions
   \<and> distinct (map (\<lambda>g. property g ''targetingType'') (createRequests newOptions oldOptions))
   \<and> set (map (\<lambda>g. property g ''targetingType'') (createRequests newOptions oldOptions)) =
       (\<lambda>option. property option ''targetingType'') ` set (difference newOptions oldOptions)
   \<and> (\<forall>g\<in>set (createRequests newOptions oldOptions).
         array_items (property g ''assignedTargetingOptions'') =
           map J_Obj
             (filter (\<lambda>option. property option ''targetingType'' = property g ''targetingType'')
                (difference newOptions oldOptions)))
   \<and> distinct (map (\<lambda>g. property g ''targetingType'') (deleteRequests newOptions oldOptions))
   \<and> set (map (\<lambda>g. property g ''targetingType'') (deleteRequests newOptions oldOptions)) =
       (\<lambda>option. property option ''targetingType'') ` set (difference oldOptions newOptions)
   \<and> (\<forall>g\<in>set (deleteRequests newOptions oldOptions).
         array_items (property g ''assignedTargetingOptionIds'') =
           map (\<lambda>option. property option ''assignedTargetingOptionId'')
             (filter (\<lambda>option. property option ''targetingType'' = property g ''targetingType'')
                (difference oldOptions newOptions)))"
proof (intro conjI impI ballI)
  assume "stringify (J_Obj A) \<noteq> stringify (J_Obj B) \<and> stringify (J_Obj A) \<noteq> stringify (J_Obj C)
      \<and> stringify (J_Obj B) \<noteq> stringify (J_Obj C)"
  then show "bulk_payload [B, C] [A, B] =
        J_Obj [(''deleteRequests'',
                J_Arr [J_Obj [(''targetingType'', property A ''targetingType''),
                              (''assignedTargetingOptionIds'',
                               J_Arr [property A ''assignedTargetingOptionId''])]]),
               (''createRequests'',
                J_Arr [J_Obj [(''targetingType'', property C ''targetingType''),
                              (''assignedTargetingOptions'', J_Arr [J_Obj C])]])]"
    by (simp add: bulk_payload_def reconcile_example)
next
  show "difference newOptions oldOptions =
       filter (\<lambda>ob. \<forall>m\<in>set oldOptions. stringify (J_Obj m) \<noteq> stringify (J_Obj ob)) newOptions"
    by (rule difference_filter)
next
  show "distinct (map (\<lambda>g. property g ''targetingType'') (createRequests newOptions oldOptions))"
    by (simp only: createRequests_types distinct_collectUniqueTypes)
next
  show "set (map (\<lambda>g. property g ''targetingType'') (createRequests newOptions oldOptions)) =
       (\<lambda>option. property option ''targetingType'') ` set (difference newOptions oldOptions)"
    by (simp only: createRequests_types set_collectUniqueTypes)
next
  fix g assume "g \<in> set (createRequests newOptions oldOptions)"
  then show "array_items (property g ''assignedTargetingOptions'') =
           map J_Obj
             (filter (\<lambda>option. property option ''targetingType'' = property g ''targetingType'')
                (difference newOptions oldOptions))"
    by (rule createRequests_group)
next
  show "distinct (map (\<lambda>g. property g ''targetingType'') (deleteRequests newOptions oldOptions))"
    by (simp only: deleteRequests_types distinct_collectUniqueTypes)
next
  show "set (map (\<lambda>g. property g ''targetingType'') (deleteRequests newOptions oldOptions)) =
       (\<lambda>option. property option ''targetingType'') ` set (difference oldOptions newOptions)"
    by (simp only: deleteRequests_types set_collectUniqueTypes)
next
  fix g assume "g \<in> set (deleteRequests newOptions oldOptions)"
  then show "array_items (property g ''assignedTargetingOptionIds'') =
           map (\<lambda>option. property option ''assignedTargetingOptionId'')
             (filter (\<lambda>option. property option ''targetingType'' = property g ''targetingType'')
                (difference oldOptions newOptions))"
    by (rule deleteRequests_group)
qed

theorem reconcile_requests_witness:
  "bulk_payload
     [[(''assignedTargetingOptionId'', J_Str ''b''), (''targetingType'', J_Str ''TARGETING_TYPE_BROWSER'')],
      [(''assignedTargetingOptionId'', J_Str ''c''), (''targetingType'', J_Str ''TARGETING_TYPE_GENDER'')]]
     [[(''assignedTargetingOptionId'', J_Str ''a''), (''targetingType'', J_Str ''TARGETING_TYPE_CHANNEL'')],
      [(''assignedTargetingOptionId'', J_Str ''b''), (''targetingType'', J_Str ''TARGETING_TYPE_BROWSER'')]]
   = J_Obj [(''deleteRequests'',
             J_Arr [J_Obj [(''targetingType'', J_Str ''TARGETING_TYPE_CHANNEL''),
                           (''assignedTargetingOptionIds'', J_Arr [J_Str ''a''])]]),
            (''createRequests'',
             J_Arr [J_Obj [(''targetingType'', J_Str ''TARGETING_TYPE_GENDER''),
                           (''assignedTargetingOptions'',
                            J_Arr [J_Obj [(''assignedTargetingOptionId'', J_Str ''c''),
                                          (''targetingType'', J_Str ''TARGETING_TYPE_GENDER'')]])]])]
   \<and> (\<exists>g. g \<in> set (createRequests
         [[(''assignedTargetingOptionId'', J_Str ''b''), (''targetingType'', J_Str ''TARGETING_TYPE_BROWSER'')],
          [(''assignedTargetingOptionId'', J_Str ''c''), (''targetingType'', J_Str ''TARGETING_TYPE_GENDER'')]]
         [[(''assignedTargetingOptionId'', J_Str ''a''), (''targetingType'', J_Str ''TARGETING_TYPE_CHANNEL'')],
          [(''assignedTargetingOptionId'', J_Str ''b''), (''targetingType'', J_Str ''TARGETING_TYPE_BROWSER'')]]))
   \<and> (\<exists>g. g \<in> set (deleteRequests
         [[(''assignedTargetingOptionId'', J_Str ''b''), (''targetingType'', J_Str ''TARGETING_TYPE_BROWSER'')],
          [(''assignedTargetingOptionId'', J_Str ''c''), (''targetingType'', J_Str ''TARGETING_TYPE_GENDER'')]]
         [[(''assignedTargetingOptionId'', J_Str ''a''), (''targetingType'', J_Str ''TARGETING_TYPE_CHANNEL'')],
          [(''assignedTargetingOptionId'', J_Str ''b''), (''targetingType'', J_Str ''TARGETING_TYPE_BROWSER'')]]))"
proof -
  let ?A = "[(''assignedTargetingOptionId'', J_Str ''a''), (''targetingType'', J_Str ''TARGETING_TYPE_CHANNEL'')]"
  let ?B = "[(''assignedTargetingOptionId'', J_Str ''b''), (''targetingType'', J_Str ''TARGETING_TYPE_BROWSER'')]"
  let ?C = "[(''assignedTargetingOptionId'', J_Str ''c''), (''targetingType'', J_Str ''TARGETING_TYPE_GENDER'')]"
  have d: "stringify (J_Obj ?A) \<noteq> stringify (J_Obj ?B) \<and> stringify (J_Obj ?A) \<noteq> stringify (J_Obj ?C)
      \<and> stringify (J_Obj ?B) \<noteq> stringify (J_Obj ?C)"
    by (simp add: quote_def quote_char_def)
  from reconcile_requests [of ?A ?B ?C "[?B, ?C]" "[?A, ?B]"] d
  have p: "bulk_payload [?B, ?C] [?A, ?B] =
        J_Obj [(''deleteRequests'',
                J_Arr [J_Obj [(''targetingType'', property ?A ''targetingType''),
                              (''assignedTargetingOptionIds'',
                               J_Arr [property ?A ''assignedTargetingOptionId''])]]),
               (''createRequests'',
                J_Arr [J_Obj [(''targetingType'', property ?C ''targetingType''),
                              (''assignedTargetingOptions'', J_Arr [J_Obj ?C])]])]"
    by blast
  then have c: "createRequests [?B, ?C] [?A, ?B] \<noteq> []" and e: "deleteRequests [?B, ?C] [?A, ?B] \<noteq> []"
    by (auto simp: bulk_payload_def Let_def)
  from c obtain g where "g \<in> set (createRequests [?B, ?C] [?A, ?B])"
    by (cases "createRequests [?B, ?C] [?A, ?B]") auto
  moreover from e obtain g' where "g' \<in> set (deleteRequests [?B, ?C] [?A, ?B])"
    by (cases "deleteRequests [?B, ?C] [?A, ?B]") auto
  ultimately show ?thesis using p by (auto simp: property_def)
qed

section \<open>Properties of replaceInputValues\<close>

text \<open>
  Claim C7. \<open>replaceInputValues\<close> is to replace every occurrence of a placeholder whose
  name the parameters have. The template \<open>${a}/${a}\<close> with the value \<open>1\<close> for \<open>a\<close> shows
  what the code does: \<open>replace\<close> with a string pattern replaces the first occurrence
  only, and the second placeholder stays.
\<close>

theorem replaceInputValues_first_occurrence_only:
  "replaceInputValues ''${a}/${a}'' (Some [(''a'', ''1'')]) = ''1/${a}''"
  by (simp add: replaceInputValues_def replace_first_def)

section \<open>Properties of getPatchMask\<close>

text \<open>
  Claim C1. The patch mask is never to list the primary identifier of the kind nor
  \<open>updateTime\<close>. \<open>getPatchMask\<close> compares each field name with \<open>this.primaryIdField_\<close>,
  but \<open>this\<close> is the entity, which has no such property (the resource has it), so no
  name is left out by that test. Two campaigns that differ in \<open>campaignId\<close> and
  \<open>updateTime\<close>, built as \<open>convertObjectToEntity\<close> builds them: the mask lists
  \<open>campaignId\<close>, the primary identifier of campaigns (and \<open>fieldList_\<close>, the array that
  each entity holds on its own); \<open>updateTime\<close> is left out.
\<close>

theorem getPatchMask_lists_primary_id:
  "convertObjectToEntity Campaigns (V_Ref 0)
     [Obj [(''campaignId'', V_Str ''1''), (''displayName'', V_Str ''a''),
           (''updateTime'', V_Str ''t1'')]] =
     (V_Ref 2,
      [Obj [(''campaignId'', V_Str ''1''), (''displayName'', V_Str ''a''),
            (''updateTime'', V_Str ''t1'')],
       Arr (map V_Str (entityFields Campaigns)),
       Obj [(''fieldList_'', V_Ref 1), (''campaignId'', V_Str ''1''),
            (''displayName'', V_Str ''a''), (''updateTime'', V_Str ''t1'')]])
   \<and> convertObjectToEntity Campaigns (V_Ref 3)
     [Obj [(''campaignId'', V_Str ''1''), (''displayName'', V_Str ''a''),
           (''updateTime'', V_Str ''t1'')],
      Arr (map V_Str (entityFields Campaigns)),
      Obj [(''fieldList_'', V_Ref 1), (''campaignId'', V_Str ''1''),
           (''displayName'', V_Str ''a''), (''updateTime'', V_Str ''t1'')],
      Obj [(''campaignId'', V_Str ''2''), (''displayName'', V_Str ''a''),
           (''updateTime'', V_Str ''t2'')]] =
     (V_Ref 5,
      [Obj [(''campaignId'', V_Str ''1''), (''displayName'', V_Str ''a''),
            (''updateTime'', V_Str ''t1'')],
       Arr (map V_Str (entityFields Campaigns)),
       Obj [(''fieldList_'', V_Ref 1), (''campaignId'', V_Str ''1''),
            (''displayName'', V_Str ''a''), (''updateTime'', V_Str ''t1'')],
       Obj [(''campaignId'', V_Str ''2''), (''displayName'', V_Str ''a''),
            (''updateTime'', V_Str ''t2'')],
       Arr (map V_Str (entityFields Campaigns)),
       Obj [(''fieldList_'', V_Ref 4), (''campaignId'', V_Str ''2''),
            (''displayName'', V_Str ''a''), (''updateTime'', V_Str ''t2'')]])
   \<and> primaryIdField Campaigns = Some ''campaignId''
   \<and> getPatchMask
      [Obj [(''campaignId'', V_Str ''1''), (''displayName'', V_Str ''a''),
            (''updateTime'', V_Str ''t1'')],
       Arr (map V_Str (entityFields Campaigns)),
       Obj [(''fieldList_'', V_Ref 1), (''campaignId'', V_Str ''1''),
            (''displayName'', V_Str ''a''), (''updateTime'', V_Str ''t1'')],
       Obj [(''campaignId'', V_Str ''2''), (''displayName'', V_Str ''a''),
            (''updateTime'', V_Str ''t2'')],
       Arr (map V_Str (entityFields Campaigns)),
       Obj [(''fieldList_'', V_Ref 4), (''campaignId'', V_Str ''2''),
            (''displayName'', V_Str ''a''), (''updateTime'', V_Str ''t2'')]] 2 5
     = ''fieldList_,campaignId''"
  by code_simp

text \<open>
  Claim C3. The patch mask of an entity against a copy of equal content is to be empty.
  Two campaigns built from the same document have the same JSON content, yet the mask
  lists \<open>frequencyCap\<close> and \<open>fieldList_\<close>: their values are objects, and \<open>!=\<close> on two
  objects compares the references.
\<close>

theorem getPatchMask_of_equal_copy:
  "to_json
      [Obj [(''unlimited'', V_Bool True)],
       Arr (map V_Str (entityFields Campaigns)),
       Obj [(''fieldList_'', V_Ref 1), (''campaignId'', V_Str ''1''),
            (''displayName'', V_Str ''a''), (''frequencyCap'', V_Ref 0)],
       Obj [(''unlimited'', V_Bool True)],
       Arr (map V_Str (entityFields Campaigns)),
       Obj [(''fieldList_'', V_Ref 4), (''campaignId'', V_Str ''1''),
            (''displayName'', V_Str ''a''), (''frequencyCap'', V_Ref 3)]] (V_Ref 2)
   = to_json
      [Obj [(''unlimited'', V_Bool True)],
       Arr (map V_Str (entityFields Campaigns)),
       Obj [(''fieldList_'', V_Ref 1), (''campaignId'', V_Str ''1''),
            (''displayName'', V_Str ''a''), (''frequencyCap'', V_Ref 0)],
       Obj [(''unlimited'', V_Bool True)],
       Arr (map V_Str (entityFields Campaigns)),
       Obj [(''fieldList_'', V_Ref 4), (''campaignId'', V_Str ''1''),
            (''displayName'', V_Str ''a''), (''frequencyCap'', V_Ref 3)]] (V_Ref 5)
   \<and> getPatchMask
      [Obj [(''unlimited'', V_Bool True)],
       Arr (map V_Str (entityFields Campaigns)),
       Obj [(''fieldList_'', V_Ref 1), (''campaignId'', V_Str ''1''),
            (''displayName'', V_Str ''a''), (''frequencyCap'', V_Ref 0)],
       Obj [(''unlimited'', V_Bool True)],
       Arr (map V_Str (entityFields Campaigns)),
       Obj [(''fieldList_'', V_Ref 4), (''campaignId'', V_Str ''1''),
            (''displayName'', V_Str ''a''), (''frequencyCap'', V_Ref 3)]] 2 5
     = ''fieldList_,frequencyCap''"
  by code_simp

section \<open>The heap and the trace of a request\<close>

lemma alloc_json_extends:
  "alloc_json j h = (v, h') \<Longrightarrow> \<exists>ext. h' = h @ ext"
  "alloc_list js h = (vs, h') \<Longrightarrow> \<exists>ext. h' = h @ ext"
  by (induction j h and js h arbitrary: v h' and vs h' rule: alloc_json_alloc_list.induct)
     (fastforce simp: alloc_def split: prod.splits)+

lemma convertObjectToEntity_extends:
  "convertObjectToEntity res v h = (e, h') \<Longrightarrow> \<exists>ext. h' = h @ ext"
  by (auto simp: convertObjectToEntity_def alloc_def split: prod.splits)

lemma convertObjectToEntity_ref:
  "convertObjectToEntity res v h = (e, h') \<Longrightarrow> \<exists>a. e = V_Ref a"
  by (auto simp: convertObjectToEntity_def alloc_def split: prod.splits)

lemma entity_callback_extends:
  "entity_callback res p acc h = (r, h') \<Longrightarrow> \<exists>ext. h' = h @ ext"
  unfolding entity_callback_def
  by (auto split: prod.splits dest!: alloc_json_extends(1) convertObjectToEntity_extends)

lemma requests_of_append: "requests_of (xs @ ys) = requests_of xs @ requests_of ys"
  by (induction xs rule: requests_of.induct) auto

lemma requests_of_Request: "requests_of (map Request reqs) = reqs"
  by (induction reqs) auto

lemma sent_append: "trace s1 = trace s @ evs \<Longrightarrow> sent s s1 = requests_of evs"
  by (simp add: sent_def)

lemma sent_requests: "trace s1 = trace s @ map Request reqs \<Longrightarrow> sent s s1 = reqs"
  by (simp add: sent_def requests_of_Request)

lemma fetch_pages_cases:
  assumes "fetch_pages (Suc n) srv m p cb url acc s = (r, s')"
  obtains (stop) "trace s' = trace s @ [Request \<lparr>req_method = m, req_url = url, req_payload = p\<rparr>]"
      "heap s' = heap s"
    | (callback) result r1 where
      "trace s' = trace s @ [Request \<lparr>req_method = m, req_url = url, req_payload = p\<rparr>]"
      "cb result acc (heap s) = (r1, heap s')"
    | (more) result acc1 h1 url1 where
      "cb result acc (heap s) = (Inr acc1, h1)"
      "fetch_pages n srv m p cb url1 acc1
         (s\<lparr>trace := trace s @ [Request \<lparr>req_method = m, req_url = url, req_payload = p\<rparr>],
            heap := h1\<rparr>)
       = (r, s')"
  using assms
  by (auto simp: Let_def split: sum.splits if_splits prod.splits)

lemma fetch_pages_trace:
  "fetch_pages pages srv m p cb url acc s = (r, s') \<Longrightarrow>
     \<exists>reqs. trace s' = trace s @ map Request reqs
          \<and> (\<forall>q\<in>set reqs. req_method q = m \<and> req_payload q = p)
          \<and> (0 < pages \<longrightarrow>
                reqs \<noteq> [] \<and> hd reqs = \<lparr>req_method = m, req_url = url, req_payload = p\<rparr>)"
proof (induction pages arbitrary: url acc s)
  case 0
  then have "trace s' = trace s @ map Request []" by simp
  then show ?case by (intro exI [of _ "[]"]) simp
next
  case (Suc n)
  let ?q = "\<lparr>req_method = m, req_url = url, req_payload = p\<rparr>"
  from Suc.prems show ?case
  proof (cases rule: fetch_pages_cases)
    case stop
    then have "trace s' = trace s @ map Request [?q]" by simp
    then show ?thesis by (intro exI [of _ "[?q]"]) simp
  next
    case (callback result r1)
    then have "trace s' = trace s @ map Request [?q]" by simp
    then show ?thesis by (intro exI [of _ "[?q]"]) simp
  next
    case (more result acc1 h1 url1)
    from Suc.IH [OF more(2)] obtain reqs where
      t: "trace s' = trace s @ Request ?q # map Request reqs"
      and a: "\<forall>q\<in>set reqs. req_method q = m \<and> req_payload q = p"
      by auto
    from t have "trace s' = trace s @ map Request (?q # reqs)" by simp
    with a show ?thesis by (intro exI [of _ "?q # reqs"]) simp
  qed
qed

lemma fetch_pages_extends:
  assumes cb: "\<And>p acc h r h'. cb p acc h = (r, h') \<Longrightarrow> \<exists>ext. h' = h @ ext"
  shows "fetch_pages pages srv m p cb url acc s = (r, s') \<Longrightarrow> \<exists>ext. heap s' = heap s @ ext"
proof (induction pages arbitrary: url acc s)
  case 0
  then show ?case by simp
next
  case (Suc n)
  from Suc.prems show ?case
  proof (cases rule: fetch_pages_cases)
    case stop
    then show ?thesis by simp
  next
    case (callback result r1)
    from cb [OF callback(2)] show ?thesis .
  next
    case (more result acc1 h1 url1)
    from cb [OF more(1)] obtain e1 where "h1 = heap s @ e1" by blast
    moreover from Suc.IH [OF more(2)] obtain e2 where "heap s' = h1 @ e2" by auto
    ultimately show ?thesis by simp
  qed
qed

lemma fetch_pages_same_heap:
  assumes cb: "\<And>p acc h. snd (cb p acc h) = h"
  shows "fetch_pages pages srv m p cb url acc s = (r, s') \<Longrightarrow> heap s' = heap s"
proof (induction pages arbitrary: url acc s)
  case 0
  then show ?case by simp
next
  case (Suc n)
  from Suc.prems show ?case
  proof (cases rule: fetch_pages_cases)
    case stop
    then show ?thesis by simp
  next
    case (callback result r1)
    with cb [of result acc "heap s"] show ?thesis by simp
  next
    case (more result acc1 h1 url1)
    with cb [of result acc "heap s"] have "h1 = heap s" by simp
    with Suc.IH [OF more(2)] show ?thesis by simp
  qed
qed

lemma fetch_pages_Returns: "fetch_pages pages srv m p cb url acc s = (Returns x, s') \<Longrightarrow> 0 < pages"
  by (cases pages) auto

lemma executeGenericRequest_trace:
  "executeGenericRequest pages srv uri m p cb acc s = (r, s') \<Longrightarrow>
     \<exists>reqs. trace s' = trace s @ map Request reqs
          \<and> (\<forall>q\<in>set reqs. req_method q = m \<and> req_payload q = p)
          \<and> (0 < pages \<longrightarrow>
                reqs \<noteq> []
                \<and> hd reqs = \<lparr>req_method = m, req_url = buildApiUrl uri, req_payload = p\<rparr>)"
  unfolding executeGenericRequest_def Let_def by (rule fetch_pages_trace)

lemma fetch_pages_single:
  assumes "fetch_pages pages srv m p cb url acc s = (r, s')" and "0 < pages"
    and "\<not> names_next_page (srv (requests_of (trace s)
                @ [\<lparr>req_method = m, req_url = url, req_payload = p\<rparr>]))"
  shows "trace s' = trace s @ [Request \<lparr>req_method = m, req_url = url, req_payload = p\<rparr>]"
proof -
  from assms(2) obtain n where "pages = Suc n" by (cases pages) auto
  with assms(1,3) show ?thesis
    by (auto simp: names_next_page_def requests_of_append Let_def
          split: sum.splits if_splits prod.splits)
qed

lemma executeGenericRequest_single:
  assumes "executeGenericRequest pages srv uri m p cb acc s = (r, s')" and "0 < pages"
    and "\<not> names_next_page (srv (requests_of (trace s)
                @ [\<lparr>req_method = m, req_url = buildApiUrl uri, req_payload = p\<rparr>]))"
  shows "trace s' = trace s
           @ [Request \<lparr>req_method = m, req_url = buildApiUrl uri, req_payload = p\<rparr>]"
  using assms unfolding executeGenericRequest_def Let_def by (rule fetch_pages_single)

lemma executeGenericRequest_extends:
  assumes "\<And>p acc h r h'. cb p acc h = (r, h') \<Longrightarrow> \<exists>ext. h' = h @ ext"
  shows "executeGenericRequest pages srv uri m p cb acc s = (r, s') \<Longrightarrow>
           \<exists>ext. heap s' = heap s @ ext"
  unfolding executeGenericRequest_def Let_def
  by (rule fetch_pages_extends [of cb]) (rule assms)

lemma executeGenericRequest_same_heap:
  assumes "\<And>p acc h. snd (cb p acc h) = h"
  shows "executeGenericRequest pages srv uri m p cb acc s = (r, s') \<Longrightarrow> heap s' = heap s"
  unfolding executeGenericRequest_def Let_def
  by (rule fetch_pages_same_heap [of cb]) (rule assms)

lemma executeGenericRequest_Returns:
  "executeGenericRequest pages srv uri m p cb acc s = (Returns x, s') \<Longrightarrow> 0 < pages"
  unfolding executeGenericRequest_def Let_def by (rule fetch_pages_Returns)

lemma get_trace:
  "get pages srv res p s = (r, s1) \<Longrightarrow>
     \<exists>reqs. trace s1 = trace s @ map Request reqs
          \<and> (\<forall>q\<in>set reqs. req_method q = GET \<and> req_payload q = None)"
  unfolding get_def executeApiGetRequest_def
  by (drule executeGenericRequest_trace) blast

lemma get_extends: "get pages srv res p s = (r, s1) \<Longrightarrow> \<exists>ext. heap s1 = heap s @ ext"
  unfolding get_def executeApiGetRequest_def
  by (rule executeGenericRequest_extends [of "entity_callback res"]) (rule entity_callback_extends)

lemma get_Returns: "get pages srv res p s = (Returns x, s1) \<Longrightarrow> 0 < pages"
  unfolding get_def executeApiGetRequest_def by (rule executeGenericRequest_Returns)

text \<open>
  The number of pages only bounds the loop: a request that ends within its pages ends
  in the same way with more of them, and a request to a service that never names a
  next page ends with its first page.
\<close>

lemma fetch_pages_more_pages:
  "fetch_pages n srv m p cb url acc s = (r, s') \<Longrightarrow> r \<noteq> Unfinished \<Longrightarrow>
     fetch_pages (n + k) srv m p cb url acc s = (r, s')"
proof (induction n arbitrary: url acc s)
  case 0
  then show ?case by simp
next
  case (Suc n)
  from Suc.prems show ?case
    by (auto simp: Let_def Suc.IH split: sum.splits prod.splits if_splits)
qed

lemma fetch_pages_last_page:
  assumes "0 < pages" and "\<And>reqs. \<not> names_next_page (srv reqs)"
  shows "fst (fetch_pages pages srv m p cb url acc s) \<noteq> Unfinished"
proof -
  from assms(1) obtain n where "pages = Suc n" by (cases pages) auto
  with assms(2) [of "requests_of (trace s) @ [\<lparr>req_method = m, req_url = url, req_payload = p\<rparr>]"]
  show ?thesis
    by (auto simp: names_next_page_def requests_of_append Let_def
          split: sum.splits prod.splits if_splits)
qed

text \<open>
  A listing follows the page token: with two pages allowed it fetches both pages of
  the two-page service, the second from the address with the token, and returns the
  entities of both; with one page allowed it is left fetching.
\<close>

lemma list_follows_pages:
  "list 2 (paging_service ''t''
             (J_Obj [(''campaigns'', J_Arr [J_Obj [(''campaignId'', J_Str ''1'')]]),
                     (''nextPageToken'', J_Str ''t'')])
             (J_Obj [(''campaigns'', J_Arr [J_Obj [(''campaignId'', J_Str ''2'')]])]))
     Campaigns (Some [(''advertiserId'', ''3'')]) \<lparr>heap = [], trace = []\<rparr>
   = (Returns [[(''fieldList_'', J_Arr (map J_Str (entityFields Campaigns))),
                (''campaignId'', J_Str ''1'')],
               [(''fieldList_'', J_Arr (map J_Str (entityFields Campaigns))),
                (''campaignId'', J_Str ''2'')]],
      \<lparr>heap = [],
       trace = [Request \<lparr>req_method = GET,
                  req_url = ''https://displayvideo.googleapis.com/v1/advertisers/3/campaigns'',
                  req_payload = None\<rparr>,
                Request \<lparr>req_method = GET,
                  req_url = ''https://displayvideo.googleapis.com/v1/advertisers/3/campaigns?pageToken=t'',
                  req_payload = None\<rparr>]\<rparr>)
   \<and> fst (list 1 (paging_service ''t''
             (J_Obj [(''campaigns'', J_Arr [J_Obj [(''campaignId'', J_Str ''1'')]]),
                     (''nextPageToken'', J_Str ''t'')])
             (J_Obj [(''campaigns'', J_Arr [J_Obj [(''campaignId'', J_Str ''2'')]])]))
     Campaigns (Some [(''advertiserId'', ''3'')]) \<lparr>heap = [], trace = []\<rparr>) = Unfinished"
  by code_simp

section \<open>Properties of update\<close>

text \<open>
  Claim C2. Let the original that \<open>update\<close> fetches be \<open>original\<close>, in the state \<open>s1\<close>
  after the fetch. If the patch mask of the entity against it is empty, \<open>update\<close>
  returns that original in that state, having sent GET requests only; a PATCH request
  is sent only when the mask is not empty, and then the requests after the fetch are
  PATCH requests with the entity as their body, the first of them to the single-entity
  URI with the mask.
\<close>

theorem update_patches_only_changes:
  assumes fetched: "get pages srv res entity s = (Returns (V_Ref original), s1)"
  shows "(getPatchMask (heap s1) original entity = [] \<longrightarrow>
            update pages srv res entity s = (Returns (V_Ref original), s1)
            \<and> (\<forall>r\<in>set (sent s s1). req_method r = GET))
       \<and> (\<forall>r\<in>set (sent s (snd (update pages srv res entity s))).
            req_method r = PATCH \<longrightarrow> getPatchMask (heap s1) original entity \<noteq> [])
       \<and> (getPatchMask (heap s1) original entity \<noteq> [] \<longrightarrow>
            (\<forall>body. snapshot (heap s1) (V_Ref entity) = Inr body \<longrightarrow>
               sent s1 (snd (update pages srv res entity s)) \<noteq> []
               \<and> hd (sent s1 (snd (update pages srv res entity s))) =
                   \<lparr>req_method = PATCH,
                    req_url = buildApiUrl (buildSingleEntityUri (heap s1) res original
                                @ ''?updateMask='' @ getPatchMask (heap s1) original entity),
                    req_payload = stringify body\<rparr>
               \<and> (\<forall>r\<in>set (sent s1 (snd (update pages srv res entity s))).
                     req_method r = PATCH \<and> req_payload r = stringify body)))"
proof -
  from get_trace [OF fetched] obtain gets where
    gets: "trace s1 = trace s @ map Request gets" "\<forall>q\<in>set gets. req_method q = GET"
    by blast
  from get_Returns [OF fetched] have pages: "0 < pages" .
  have empty: "update pages srv res entity s = (Returns (V_Ref original), s1)"
    if "getPatchMask (heap s1) original entity = []"
    using fetched that by (simp add: update_def)
  show ?thesis
  proof (intro conjI impI allI ballI)
    assume "getPatchMask (heap s1) original entity = []"
    then show "update pages srv res entity s = (Returns (V_Ref original), s1)" by (rule empty)
  next
    fix r assume "r \<in> set (sent s s1)"
    with sent_requests [OF gets(1)] gets(2) show "req_method r = GET" by simp
  next
    fix r assume r: "r \<in> set (sent s (snd (update pages srv res entity s)))"
      and p: "req_method r = PATCH"
    show "getPatchMask (heap s1) original entity \<noteq> []"
    proof
      assume "getPatchMask (heap s1) original entity = []"
      from empty [OF this] r have "r \<in> set (sent s s1)" by simp
      with sent_requests [OF gets(1)] gets(2) p show False by simp
    qed
  next
    fix body
    assume ne: "getPatchMask (heap s1) original entity \<noteq> []"
      and snap: "snapshot (heap s1) (V_Ref entity) = Inr body"
    obtain r s2 where u: "update pages srv res entity s = (r, s2)"
      by (cases "update pages srv res entity s")
    with fetched ne snap have
      "executeGenericRequest pages srv
         (buildSingleEntityUri (heap s1) res original
            @ ''?updateMask='' @ getPatchMask (heap s1) original entity)
         PATCH (stringify body) (entity_callback res) V_Null s1 = (r, s2)"
      by (simp add: update_def executeApiPatchRequest_def buildPatchUri_def Let_def)
    from executeGenericRequest_trace [OF this] pages obtain reqs where
      "trace s2 = trace s1 @ map Request reqs"
      and a: "\<forall>q\<in>set reqs. req_method q = PATCH \<and> req_payload q = stringify body"
      and b: "reqs \<noteq> []" "hd reqs =
                \<lparr>req_method = PATCH,
                 req_url = buildApiUrl (buildSingleEntityUri (heap s1) res original
                             @ ''?updateMask='' @ getPatchMask (heap s1) original entity),
                 req_payload = stringify body\<rparr>"
      by blast
    from sent_requests [OF this(1)] u
    have e: "sent s1 (snd (update pages srv res entity s)) = reqs" by simp
    from e b show "sent s1 (snd (update pages srv res entity s)) \<noteq> []" by simp
    from e b show "hd (sent s1 (snd (update pages srv res entity s))) =
                   \<lparr>req_method = PATCH,
                    req_url = buildApiUrl (buildSingleEntityUri (heap s1) res original
                                @ ''?updateMask='' @ getPatchMask (heap s1) original entity),
                    req_payload = stringify body\<rparr>" by simp
    fix q assume "q \<in> set (sent s1 (snd (update pages srv res entity s)))"
    with e a show "req_method q = PATCH" "req_payload q = stringify body" by auto
  qed
qed

theorem update_patches_only_changes_witness:
  "update 2 (constant_service (J_Obj [(''advertiserId'', J_Str ''3''), (''campaignId'', J_Str ''7''),
                                    (''displayName'', J_Str ''x'')]))
     Campaigns 0
     \<lparr>heap = [Obj [(''advertiserId'', V_Str ''3''), (''campaignId'', V_Str ''7'')]], trace = []\<rparr>
   = (Returns (V_Ref 3),
      \<lparr>heap = [Obj [(''advertiserId'', V_Str ''3''), (''campaignId'', V_Str ''7'')],
               Obj [(''advertiserId'', V_Str ''3''), (''campaignId'', V_Str ''7''),
                    (''displayName'', V_Str ''x'')],
               Arr (map V_Str (entityFields Campaigns)),
               Obj [(''fieldList_'', V_Ref 2), (''advertiserId'', V_Str ''3''),
                    (''campaignId'', V_Str ''7''), (''displayName'', V_Str ''x'')]],
       trace = [Request \<lparr>req_method = GET,
                  req_url = ''https://displayvideo.googleapis.com/v1/advertisers/3/campaigns/7'',
                  req_payload = None\<rparr>]\<rparr>)
   \<and> hd (sent
      \<lparr>heap = [Obj [(''advertiserId'', V_Str ''3''), (''campaignId'', V_Str ''7''),
                    (''displayName'', V_Str ''y'')],
               Obj [(''advertiserId'', V_Str ''3''), (''campaignId'', V_Str ''7''),
                    (''displayName'', V_Str ''x'')],
               Arr (map V_Str (entityFields Campaigns)),
               Obj [(''fieldList_'', V_Ref 2), (''advertiserId'', V_Str ''3''),
                    (''campaignId'', V_Str ''7''), (''displayName'', V_Str ''x'')]],
       trace = [Request \<lparr>req_method = GET,
                  req_url = ''https://displayvideo.googleapis.com/v1/advertisers/3/campaigns/7'',
                  req_payload = None\<rparr>]\<rparr>
      (snd (update 2 (constant_service (J_Obj [(''advertiserId'', J_Str ''3''),
                                             (''campaignId'', J_Str ''7''),
                                             (''displayName'', J_Str ''x'')]))
              Campaigns 0
              \<lparr>heap = [Obj [(''advertiserId'', V_Str ''3''), (''campaignId'', V_Str ''7''),
                            (''displayName'', V_Str ''y'')]], trace = []\<rparr>)))
     = \<lparr>req_method = PATCH,
        req_url = ''https://displayvideo.googleapis.com/v1/advertisers/3/campaigns/7?updateMask=displayName'',
        req_payload = stringify (J_Obj [(''advertiserId'', J_Str ''3''), (''campaignId'', J_Str ''7''),
                                        (''displayName'', J_Str ''y'')])\<rparr>"
proof -
  let ?srv = "constant_service (J_Obj [(''advertiserId'', J_Str ''3''), (''campaignId'', J_Str ''7''),
                                    (''displayName'', J_Str ''x'')])"
  let ?s = "\<lparr>heap = [Obj [(''advertiserId'', V_Str ''3''), (''campaignId'', V_Str ''7'')]], trace = []\<rparr>"
  let ?s1 = "\<lparr>heap = [Obj [(''advertiserId'', V_Str ''3''), (''campaignId'', V_Str ''7'')],
               Obj [(''advertiserId'', V_Str ''3''), (''campaignId'', V_Str ''7''),
                    (''displayName'', V_Str ''x'')],
               Arr (map V_Str (entityFields Campaigns)),
               Obj [(''fieldList_'', V_Ref 2), (''advertiserId'', V_Str ''3''),
                    (''campaignId'', V_Str ''7''), (''displayName'', V_Str ''x'')]],
       trace = [Request \<lparr>req_method = GET,
                  req_url = ''https://displayvideo.googleapis.com/v1/advertisers/3/campaigns/7'',
                  req_payload = None\<rparr>]\<rparr>"
  let ?t = "\<lparr>heap = [Obj [(''advertiserId'', V_Str ''3''), (''campaignId'', V_Str ''7''),
                            (''displayName'', V_Str ''y'')]], trace = []\<rparr>"
  let ?t1 = "\<lparr>heap = [Obj [(''advertiserId'', V_Str ''3''), (''campaignId'', V_Str ''7''),
                    (''displayName'', V_Str ''y'')],
               Obj [(''advertiserId'', V_Str ''3''), (''campaignId'', V_Str ''7''),
                    (''displayName'', V_Str ''x'')],
               Arr (map V_Str (entityFields Campaigns)),
               Obj [(''fieldList_'', V_Ref 2), (''advertiserId'', V_Str ''3''),
                    (''campaignId'', V_Str ''7''), (''displayName'', V_Str ''x'')]],
       trace = [Request \<lparr>req_method = GET,
                  req_url = ''https://displayvideo.googleapis.com/v1/advertisers/3/campaigns/7'',
                  req_payload = None\<rparr>]\<rparr>"
  have g: "get 2 ?srv Campaigns 0 ?s = (Returns (V_Ref 3), ?s1)" by code_simp
  have m: "getPatchMask (heap ?s1) 3 0 = []" by code_simp
  have g': "get 2 ?srv Campaigns 0 ?t = (Returns (V_Ref 3), ?t1)" by code_simp
  have m': "getPatchMask (heap ?t1) 3 0 = ''displayName''" by code_simp
  have p': "snapshot (heap ?t1) (V_Ref 0) =
      Inr (J_Obj [(''advertiserId'', J_Str ''3''), (''campaignId'', J_Str ''7''),
                  (''displayName'', J_Str ''y'')])" by code_simp
  from update_patches_only_changes [OF g] m
  have a: "update 2 ?srv Campaigns 0 ?s = (Returns (V_Ref 3), ?s1)" by blast
  have u': "buildApiUrl (buildSingleEntityUri (heap ?t1) Campaigns 3 @ ''?updateMask='' @ ''displayName'')
      = ''https://displayvideo.googleapis.com/v1/advertisers/3/campaigns/7?updateMask=displayName''"
    by code_simp
  let ?sent = "sent ?t1 (snd (update 2 ?srv Campaigns 0 ?t))"
  from update_patches_only_changes [OF g'] m' p'
  have "hd ?sent =
      \<lparr>req_method = PATCH,
       req_url = buildApiUrl (buildSingleEntityUri (heap ?t1) Campaigns 3
                   @ ''?updateMask='' @ ''displayName''),
       req_payload = stringify (J_Obj [(''advertiserId'', J_Str ''3''), (''campaignId'', J_Str ''7''),
                                       (''displayName'', J_Str ''y'')])\<rparr>"
    by simp
  with u' have b: "hd ?sent = \<lparr>req_method = PATCH,
        req_url = ''https://displayvideo.googleapis.com/v1/advertisers/3/campaigns/7?updateMask=displayName'',
        req_payload = stringify (J_Obj [(''advertiserId'', J_Str ''3''), (''campaignId'', J_Str ''7''),
                                        (''displayName'', J_Str ''y'')])\<rparr>"
    by (simp only:)
  from a b show ?thesis by (simp only: simp_thms)
qed

section \<open>Properties of create\<close>

text \<open>
  Claim C6. The payload of \<open>create\<close> is to be without the primary identifier of the
  kind. The constructor of \<open>Advertisers\<close> passes no primary identifier field (every
  other resource passes one), so \<open>create\<close> deletes the property named \<open>undefined\<close>, and
  the payload of a new advertiser keeps \<open>advertiserId\<close>.
\<close>

theorem create_advertiser_keeps_identifier:
  "requests_of (trace (snd (create 1 (constant_service (J_Obj [(''advertiserId'', J_Str ''77'')]))
      Advertisers 1
      \<lparr>heap = [Arr (map V_Str (entityFields Advertisers)),
               Obj [(''fieldList_'', V_Ref 0), (''advertiserId'', V_Str ''1''),
                    (''partnerId'', V_Str ''9''), (''displayName'', V_Str ''x'')]],
       trace = []\<rparr>)))
   = [\<lparr>req_method = POST,
       req_url = ''https://displayvideo.googleapis.com/v1/advertisers?partnerId=9'',
       req_payload =
         stringify (J_Obj [(''fieldList_'', J_Arr (map J_Str (entityFields Advertisers))),
                           (''advertiserId'', J_Str ''1''), (''partnerId'', J_Str ''9''),
                           (''displayName'', J_Str ''x'')])\<rparr>]"
  by code_simp

section \<open>Properties of bulkUpdate\<close>

lemma list_callback_same_heap: "snd (list_callback res p acc h) = h"
  by (simp add: list_callback_def Let_def split: option.splits)

lemma list_state:
  assumes "list pages srv res params s = (r, s1)"
  shows "heap s1 = heap s"
    and "\<exists>reqs. trace s1 = trace s @ map Request reqs
           \<and> (\<forall>q\<in>set reqs. req_method q = GET \<and> req_payload q = None)"
    and "r = Returns x \<Longrightarrow> 0 < pages"
proof -
  obtain r0 s0 where e: "executeGenericRequest pages srv (buildListUri res params) GET None
      (list_callback res) [] s = (r0, s0)"
    by (cases "executeGenericRequest pages srv (buildListUri res params) GET None
      (list_callback res) [] s")
  with assms have s0: "s0 = s1" and r: "r = Returns x \<Longrightarrow> \<exists>y. r0 = Returns y"
    unfolding list_def executeApiGetRequest_def by (cases r0; simp)+
  from executeGenericRequest_same_heap [of "list_callback res", OF list_callback_same_heap e] s0
  show "heap s1 = heap s" by simp
  from executeGenericRequest_trace [OF e] s0
  show "\<exists>reqs. trace s1 = trace s @ map Request reqs
           \<and> (\<forall>q\<in>set reqs. req_method q = GET \<and> req_payload q = None)" by blast
  show "0 < pages" if "r = Returns x"
  proof -
    from r [OF that] obtain y where "r0 = Returns y" ..
    with e show ?thesis by (simp add: executeGenericRequest_Returns)
  qed
qed

lemma bulk_callback_same_heap: "snd (bulk_callback p acc h) = h"
  by (simp add: bulk_callback_def Let_def)

text \<open>
  The claim C5 as stated fails: with no desired and no current options both request
  lists are empty, and \<open>bulkUpdate\<close> still posts the bulk edit.
\<close>

theorem bulkUpdate_posts_empty_edit:
  "createRequests [] [] = [] \<and> deleteRequests [] [] = []
   \<and> listTargetingOptions 1 (constant_service (J_Obj [])) 0
        \<lparr>heap = [Obj [(''advertiserId'', V_Str ''1''), (''lineItemId'', V_Str ''22'')]],
         trace = []\<rparr>
      = (Returns [],
         \<lparr>heap = [Obj [(''advertiserId'', V_Str ''1''), (''lineItemId'', V_Str ''22'')]],
          trace = [Request \<lparr>req_method = GET,
            req_url = ''https://displayvideo.googleapis.com/v1/advertisers/1/lineItems/22:bulkListLineItemAssignedTargetingOptions'',
            req_payload = None\<rparr>]\<rparr>)
   \<and> sent \<lparr>heap = [Obj [(''advertiserId'', V_Str ''1''), (''lineItemId'', V_Str ''22'')]],
           trace = []\<rparr>
        (snd (bulkUpdate 1 (constant_service (J_Obj [])) 0 []
           \<lparr>heap = [Obj [(''advertiserId'', V_Str ''1''), (''lineItemId'', V_Str ''22'')]],
            trace = []\<rparr>))
      = [\<lparr>req_method = GET,
          req_url = ''https://displayvideo.googleapis.com/v1/advertisers/1/lineItems/22:bulkListLineItemAssignedTargetingOptions'',
          req_payload = None\<rparr>,
         \<lparr>req_method = POST,
          req_url = ''https://displayvideo.googleapis.com/v1/advertisers/1/lineItems/22:bulkEditLineItemAssignedTargetingOptions'',
          req_payload = stringify (J_Obj [(''deleteRequests'', J_Arr []), (''createRequests'', J_Arr [])])\<rparr>]"
  by code_simp

text \<open>
  Claim C5, amended. \<open>bulkUpdate\<close> has no test of the two request lists: whenever the
  listing of the current options returns, it posts the bulk edit. The requests after
  the listing are POST requests with both lists as the payload, the first of them to
  the bulk edit URI of the line item, and it is the only one unless its answer names a
  next page; when both lists are empty the payload has two empty arrays.
\<close>

theorem bulkUpdate_always_posts:
  assumes listed: "listTargetingOptions pages srv lineItem s = (Returns oldOptions, s1)"
  shows "sent s1 (snd (bulkUpdate pages srv lineItem newOptions s)) \<noteq> []
       \<and> hd (sent s1 (snd (bulkUpdate pages srv lineItem newOptions s))) =
           \<lparr>req_method = POST,
            req_url = buildApiUrl (bulkEditUri (heap s1) lineItem),
            req_payload = stringify (bulk_payload newOptions oldOptions)\<rparr>
       \<and> (\<forall>q\<in>set (sent s1 (snd (bulkUpdate pages srv lineItem newOptions s))).
             req_method q = POST
             \<and> req_payload q = stringify (bulk_payload newOptions oldOptions))
       \<and> (\<not> names_next_page (srv (requests_of (trace s1)
               @ [\<lparr>req_method = POST,
                   req_url = buildApiUrl (bulkEditUri (heap s1) lineItem),
                   req_payload = stringify (bulk_payload newOptions oldOptions)\<rparr>]))
            \<longrightarrow> sent s1 (snd (bulkUpdate pages srv lineItem newOptions s)) =
                  [\<lparr>req_method = POST,
                    req_url = buildApiUrl (bulkEditUri (heap s1) lineItem),
                    req_payload = stringify (bulk_payload newOptions oldOptions)\<rparr>])
       \<and> (createRequests newOptions oldOptions = [] \<and> deleteRequests newOptions oldOptions = []
            \<longrightarrow> bulk_payload newOptions oldOptions =
                  J_Obj [(''deleteRequests'', J_Arr []), (''createRequests'', J_Arr [])])"
proof -
  let ?req = "\<lparr>req_method = POST,
             req_url = buildApiUrl (bulkEditUri (heap s1) lineItem),
             req_payload = stringify (bulk_payload newOptions oldOptions)\<rparr>"
  let ?sent = "sent s1 (snd (bulkUpdate pages srv lineItem newOptions s))"
  from listed have pages: "0 < pages"
    unfolding listTargetingOptions_def by (rule list_state(3)) simp
  obtain r s2 where b: "bulkUpdate pages srv lineItem newOptions s = (r, s2)"
    by (cases "bulkUpdate pages srv lineItem newOptions s")
  with listed have e: "executeGenericRequest pages srv (bulkEditUri (heap s1) lineItem) POST
      (stringify (bulk_payload newOptions oldOptions)) bulk_callback (J_Arr []) s1 = (r, s2)"
    by (simp add: bulkUpdate_def executeApiPostRequest_def Let_def)
  from executeGenericRequest_trace [OF e] pages obtain reqs where
    t: "trace s2 = trace s1 @ map Request reqs"
    and a: "\<forall>q\<in>set reqs. req_method q = POST
              \<and> req_payload q = stringify (bulk_payload newOptions oldOptions)"
    and h: "reqs \<noteq> []" "hd reqs = ?req"
    by blast
  from sent_requests [OF t] b have s: "?sent = reqs" by simp
  have single: "?sent = [?req]"
    if "\<not> names_next_page (srv (requests_of (trace s1) @ [?req]))"
  proof -
    from executeGenericRequest_single [OF e pages that]
    have "trace s2 = trace s1 @ map Request [?req]" by simp
    from sent_requests [OF this] b show ?thesis by simp
  qed
  have empty: "createRequests newOptions oldOptions = [] \<and> deleteRequests newOptions oldOptions = []
            \<longrightarrow> bulk_payload newOptions oldOptions =
                  J_Obj [(''deleteRequests'', J_Arr []), (''createRequests'', J_Arr [])]"
    by (simp add: bulk_payload_def Let_def)
  from h have c1: "?sent \<noteq> []" and c2: "hd ?sent = ?req" unfolding s by simp_all
  from a have c3: "\<forall>q\<in>set ?sent. req_method q = POST
              \<and> req_payload q = stringify (bulk_payload newOptions oldOptions)"
    unfolding s .
  from single have c4: "\<not> names_next_page (srv (requests_of (trace s1) @ [?req]))
      \<longrightarrow> ?sent = [?req]" by (rule impI)
  from c1 c2 c3 c4 empty show ?thesis by (intro conjI)
qed

theorem bulkUpdate_always_posts_witness:
  "sent
     \<lparr>heap = [Obj [(''advertiserId'', V_Str ''1''), (''lineItemId'', V_Str ''22'')]],
      trace = [Request \<lparr>req_method = GET,
         req_url = ''https://displayvideo.googleapis.com/v1/advertisers/1/lineItems/22:bulkListLineItemAssignedTargetingOptions'',
         req_payload = None\<rparr>]\<rparr>
     (snd (bulkUpdate 1
        (constant_service (J_Obj [(''assignedTargetingOptions'',
           J_Arr [J_Obj [(''assignedTargetingOptionId'', J_Str ''a''),
                         (''targetingType'', J_Str ''TARGETING_TYPE_CHANNEL'')]])]))
        0
        [[(''assignedTargetingOptionId'', J_Str ''c''), (''targetingType'', J_Str ''TARGETING_TYPE_GENDER'')]]
        \<lparr>heap = [Obj [(''advertiserId'', V_Str ''1''), (''lineItemId'', V_Str ''22'')]],
         trace = []\<rparr>))
   = [\<lparr>req_method = POST,
       req_url = ''https://displayvideo.googleapis.com/v1/advertisers/1/lineItems/22:bulkEditLineItemAssignedTargetingOptions'',
       req_payload = stringify
         (J_Obj [(''deleteRequests'',
                  J_Arr [J_Obj [(''targetingType'', J_Str ''TARGETING_TYPE_CHANNEL''),
                                (''assignedTargetingOptionIds'', J_Arr [J_Str ''a''])]]),
                 (''createRequests'',
                  J_Arr [J_Obj [(''targetingType'', J_Str ''TARGETING_TYPE_GENDER''),
                                (''assignedTargetingOptions'',
                                 J_Arr [J_Obj [(''assignedTargetingOptionId'', J_Str ''c''),
                                               (''targetingType'', J_Str ''TARGETING_TYPE_GENDER'')]])]])])\<rparr>]"
proof -
  let ?srv = "constant_service (J_Obj [(''assignedTargetingOptions'',
           J_Arr [J_Obj [(''assignedTargetingOptionId'', J_Str ''a''),
                         (''targetingType'', J_Str ''TARGETING_TYPE_CHANNEL'')]])])"
  let ?s = "\<lparr>heap = [Obj [(''advertiserId'', V_Str ''1''), (''lineItemId'', V_Str ''22'')]],
         trace = []\<rparr>"
  let ?s1 = "\<lparr>heap = [Obj [(''advertiserId'', V_Str ''1''), (''lineItemId'', V_Str ''22'')]],
      trace = [Request \<lparr>req_method = GET,
         req_url = ''https://displayvideo.googleapis.com/v1/advertisers/1/lineItems/22:bulkListLineItemAssignedTargetingOptions'',
         req_payload = None\<rparr>]\<rparr>"
  let ?old = "[[(''fieldList_'', J_Arr (map J_Str (entityFields LineItemTargetingOptions))),
               (''assignedTargetingOptionId'', J_Str ''a''),
               (''targetingType'', J_Str ''TARGETING_TYPE_CHANNEL'')]]"
  let ?new = "[[(''assignedTargetingOptionId'', J_Str ''c''), (''targetingType'', J_Str ''TARGETING_TYPE_GENDER'')]]"
  have l: "listTargetingOptions 1 ?srv 0 ?s = (Returns ?old, ?s1)" by code_simp
  have u: "buildApiUrl (bulkEditUri (heap ?s1) 0) =
      ''https://displayvideo.googleapis.com/v1/advertisers/1/lineItems/22:bulkEditLineItemAssignedTargetingOptions''"
    by code_simp
  have p: "bulk_payload ?new ?old =
         J_Obj [(''deleteRequests'',
                  J_Arr [J_Obj [(''targetingType'', J_Str ''TARGETING_TYPE_CHANNEL''),
                                (''assignedTargetingOptionIds'', J_Arr [J_Str ''a''])]]),
                 (''createRequests'',
                  J_Arr [J_Obj [(''targetingType'', J_Str ''TARGETING_TYPE_GENDER''),
                                (''assignedTargetingOptions'',
                                 J_Arr [J_Obj [(''assignedTargetingOptionId'', J_Str ''c''),
                                               (''targetingType'', J_Str ''TARGETING_TYPE_GENDER'')]])]])]"
    by code_simp
  have n0: "\<not> names_next_page (?srv reqs)" for reqs
    unfolding constant_service_def by code_simp
  have n: "\<not> names_next_page (?srv (requests_of (trace ?s1)
               @ [\<lparr>req_method = POST,
                   req_url = buildApiUrl (bulkEditUri (heap ?s1) 0),
                   req_payload = stringify (bulk_payload ?new ?old)\<rparr>]))"
    by (rule n0)
  from bulkUpdate_always_posts
    [OF l, of ?new, THEN conjunct2, THEN conjunct2, THEN conjunct2, THEN conjunct1] n
  have "sent ?s1 (snd (bulkUpdate 1 ?srv 0 ?new ?s)) =
           [\<lparr>req_method = POST,
             req_url = buildApiUrl (bulkEditUri (heap ?s1) 0),
             req_payload = stringify (bulk_payload ?new ?old)\<rparr>]"
    by (rule mp)
  then show ?thesis by (simp only: u p)
qed

section \<open>Properties of delete\<close>

lemma map_of_set_prop:
  "map_of (set_prop ps k v) k' = (if k' = k then Some v else map_of ps k')"
  by (induction ps) auto

lemma assign_field_at:
  "entity < length h \<Longrightarrow> h ! entity = Obj ps \<Longrightarrow>
     length (assign_field h entity k v) = length h \<and>
     assign_field h entity k v ! entity = Obj (set_prop ps k v) \<and>
     (\<forall>a. a \<noteq> entity \<longrightarrow> assign_field h entity k v ! a = h ! a)"
  by (simp add: assign_field_def)



lemma entity_request_extends:
  "executeGenericRequest pages srv uri m p (entity_callback res) acc s = (r, s1) \<Longrightarrow>
     \<exists>ext. heap s1 = heap s @ ext"
  by (rule executeGenericRequest_extends [of "entity_callback res"]) (rule entity_callback_extends)

lemma update_result:
  assumes "update pages srv res e s = (r, s2)"
  shows "\<exists>rg s1. get pages srv res e s = (rg, s1) \<and>
       (s2 = s1 \<or>
        (\<exists>orig body reqs. rg = Returns (V_Ref orig)
           \<and> snapshot (heap s1) (V_Ref e) = Inr body
           \<and> trace s2 = trace s1 @ map Request reqs
           \<and> (\<forall>q\<in>set reqs. req_method q = PATCH \<and> req_payload q = stringify body)
           \<and> (\<exists>ext. heap s2 = heap s1 @ ext)))"
proof -
  obtain rg s1 where g: "get pages srv res e s = (rg, s1)" by (cases "get pages srv res e s")
  show ?thesis
  proof (cases rg)
    case (Throws err)
    with g assms show ?thesis by (simp add: update_def)
  next
    case Unfinished
    with g assms show ?thesis by (simp add: update_def)
  next
    case (Returns original)
    show ?thesis
    proof (cases original)
      case (V_Ref orig)
      show ?thesis
      proof (cases "getPatchMask (heap s1) orig e = []")
        case True
        with g Returns V_Ref assms show ?thesis by (simp add: update_def)
      next
        case False
        show ?thesis
        proof (cases "snapshot (heap s1) (V_Ref e)")
          case (Inl err)
          with g Returns V_Ref False assms show ?thesis by (simp add: update_def)
        next
          case (Inr body)
          from g Returns V_Ref False Inr assms
          have x: "executeGenericRequest pages srv (buildPatchUri (heap s1) res orig e) PATCH
                     (stringify body) (entity_callback res) V_Null s1 = (r, s2)"
            by (simp add: update_def executeApiPatchRequest_def)
          from executeGenericRequest_trace [OF x] entity_request_extends [OF x]
          have "\<exists>reqs. trace s2 = trace s1 @ map Request reqs
                  \<and> (\<forall>q\<in>set reqs. req_method q = PATCH \<and> req_payload q = stringify body)
                  \<and> (\<exists>ext. heap s2 = heap s1 @ ext)"
            by blast
          with g Returns V_Ref Inr show ?thesis by blast
        qed
      qed
    qed (use g Returns assms in \<open>simp_all add: update_def\<close>)
  qed
qed

lemma update_extends:
  assumes "update pages srv res e s = (r, s2)"
  shows "\<exists>ext. heap s2 = heap s @ ext"
proof -
  from update_result [OF assms] obtain rg s1 where g: "get pages srv res e s = (rg, s1)"
    and c: "s2 = s1 \<or> (\<exists>ext. heap s2 = heap s1 @ ext)" by blast
  from get_extends [OF g] obtain e1 where "heap s1 = heap s @ e1" by blast
  with c show ?thesis by auto
qed




lemma no_callback_same_heap: "snd (no_callback p acc h) = h"
  by (simp add: no_callback_def)

lemma trace_archive_status: "trace (archive_status entity s) = trace s"
  by (simp add: archive_status_def)


lemma archive_status_at:
  "entity < length (heap s) \<Longrightarrow> heap s ! entity = Obj ps \<Longrightarrow>
     length (heap (archive_status entity s)) = length (heap s) \<and>
     heap (archive_status entity s) ! entity =
       Obj (set_prop ps ''entityStatus'' (V_Str ''ENTITY_STATUS_ARCHIVED'')) \<and>
     (\<forall>a. a \<noteq> entity \<longrightarrow> heap (archive_status entity s) ! a = heap s ! a)"
  by (simp add: archive_status_def assign_field_def)

lemma delete_after_update:
  assumes "update pages srv res entity (archive_status entity s) = (Returns u, s1)"
  shows "delete pages srv res entity s =
           executeGenericRequest pages srv (buildSingleEntityUri (heap s1) res entity)
             DELETE None no_callback () s1"
  using assms by (simp add: delete_def Let_def executeApiDeleteRequest_def)



subsection \<open>The address of a single entity\<close>








subsection \<open>The update that archives\<close>







text \<open>
  \<open>Advertisers\<close> is the resource without a primary identifier field: the three requests
  of \<open>delete\<close> for an advertiser go to addresses with \<open>undefined\<close> in the place of the
  identifier.
\<close>

lemma delete_advertiser_address:
  "map req_url (requests_of (trace (snd (delete 1
      (constant_service (J_Obj [(''advertiserId'', J_Str ''1''), (''partnerId'', J_Str ''9'')]))
      Advertisers 0
      \<lparr>heap = [Obj [(''advertiserId'', V_Str ''1''), (''partnerId'', V_Str ''9'')]],
       trace = []\<rparr>))))
   = [''https://displayvideo.googleapis.com/v1/advertisers?partnerId=9/undefined'',
      ''https://displayvideo.googleapis.com/v1/advertisers?partnerId=9/undefined?updateMask=entityStatus'',
      ''https://displayvideo.googleapis.com/v1/advertisers?partnerId=9/undefined'']"
  by code_simp

lemma delete_extends:
  assumes "delete pages srv res entity s = (r, s2)"
  shows "\<exists>ext. heap s2 = heap (archive_status entity s) @ ext"
proof -
  obtain ru s1 where u: "update pages srv res entity (archive_status entity s) = (ru, s1)"
    by (cases "update pages srv res entity (archive_status entity s)")
  from update_extends [OF u] obtain ext where e: "heap s1 = heap (archive_status entity s) @ ext"
    by blast
  show ?thesis
  proof (cases ru)
    case (Returns v)
    with u assms delete_after_update [of pages srv res entity s v s1]
    have "executeGenericRequest pages srv (buildSingleEntityUri (heap s1) res entity)
             DELETE None no_callback () s1 = (r, s2)" by simp
    from executeGenericRequest_same_heap [of no_callback, OF no_callback_same_heap this] e
    show ?thesis by simp
  next
    case (Throws err)
    with u assms e show ?thesis by (auto simp: delete_def Let_def)
  next
    case Unfinished
    with u assms e show ?thesis by (auto simp: delete_def Let_def)
  qed
qed

text \<open>
  Claim C10. \<open>delete\<close> assigns to its argument in place: however the call ends (it
  returns, the update throws or the DELETE request throws), the entity object then has
  \<open>entityStatus\<close> equal to \<open>ENTITY_STATUS_ARCHIVED\<close>, every other property of it is as
  before, and so is every other object that was on the heap.
\<close>

theorem delete_mutates_only_status:
  assumes "entity < length (heap s)" and "heap s ! entity = Obj ps"
    and "delete pages srv res entity s = (r, s2)"
  shows "entity < length (heap s2)
       \<and> heap s2 ! entity = Obj (set_prop ps ''entityStatus'' (V_Str ''ENTITY_STATUS_ARCHIVED''))
       \<and> get_prop (heap s2) (V_Ref entity) ''entityStatus'' = V_Str ''ENTITY_STATUS_ARCHIVED''
       \<and> (\<forall>k. k \<noteq> ''entityStatus'' \<longrightarrow>
             get_prop (heap s2) (V_Ref entity) k = get_prop (heap s) (V_Ref entity) k)
       \<and> (\<forall>a<length (heap s). a \<noteq> entity \<longrightarrow> heap s2 ! a = heap s ! a)"
proof -
  from delete_extends [OF assms(3)] obtain ext where
    e: "heap s2 = heap (archive_status entity s) @ ext" by blast
  from archive_status_at [OF assms(1,2)]
  have l: "length (heap (archive_status entity s)) = length (heap s)"
    and a: "heap (archive_status entity s) ! entity =
       Obj (set_prop ps ''entityStatus'' (V_Str ''ENTITY_STATUS_ARCHIVED''))"
    and o: "\<forall>a. a \<noteq> entity \<longrightarrow> heap (archive_status entity s) ! a = heap s ! a"
    by simp_all
  from e l assms(1) have 1: "entity < length (heap s2)" by simp
  from e l a assms(1)
  have 2: "heap s2 ! entity = Obj (set_prop ps ''entityStatus'' (V_Str ''ENTITY_STATUS_ARCHIVED''))"
    by (simp add: nth_append)
  from 1 2 have 3: "get_prop (heap s2) (V_Ref entity) ''entityStatus'' = V_Str ''ENTITY_STATUS_ARCHIVED''"
    by (simp add: get_prop_def obj_at_def map_of_set_prop)
  from 1 2 assms(1,2)
  have 4: "\<forall>k. k \<noteq> ''entityStatus'' \<longrightarrow>
             get_prop (heap s2) (V_Ref entity) k = get_prop (heap s) (V_Ref entity) k"
    by (simp add: get_prop_def obj_at_def map_of_set_prop)
  from e l o have 5: "\<forall>a<length (heap s). a \<noteq> entity \<longrightarrow> heap s2 ! a = heap s ! a"
    by (simp add: nth_append)
  from 1 2 3 4 5 show ?thesis by blast
qed

theorem delete_mutates_only_status_witness:
  "heap (snd (delete 1 (refusing_delete_service
                        (J_Obj [(''advertiserId'', J_Str ''3''), (''campaignId'', J_Str ''7'')])
                        ''denied'')
                Campaigns 0
                \<lparr>heap = [Obj [(''advertiserId'', V_Str ''3''), (''campaignId'', V_Str ''7'')]],
                 trace = []\<rparr>)) ! 0
     = Obj [(''advertiserId'', V_Str ''3''), (''campaignId'', V_Str ''7''),
            (''entityStatus'', V_Str ''ENTITY_STATUS_ARCHIVED'')]
   \<and> fst (delete 1 (refusing_delete_service
                    (J_Obj [(''advertiserId'', J_Str ''3''), (''campaignId'', J_Str ''7'')])
                    ''denied'')
            Campaigns 0
            \<lparr>heap = [Obj [(''advertiserId'', V_Str ''3''), (''campaignId'', V_Str ''7'')]],
             trace = []\<rparr>)
     = Throws (Error ''denied'')"
proof -
  let ?srv = "refusing_delete_service
                (J_Obj [(''advertiserId'', J_Str ''3''), (''campaignId'', J_Str ''7'')]) ''denied''"
  let ?s = "\<lparr>heap = [Obj [(''advertiserId'', V_Str ''3''), (''campaignId'', V_Str ''7'')]], trace = []\<rparr>"
  have v: "0 < length (heap ?s)"
    "heap ?s ! 0 = Obj [(''advertiserId'', V_Str ''3''), (''campaignId'', V_Str ''7'')]"
    by simp_all
  have d: "delete 1 ?srv Campaigns 0 ?s
      = (fst (delete 1 ?srv Campaigns 0 ?s), snd (delete 1 ?srv Campaigns 0 ?s))"
    by simp
  from delete_mutates_only_status [OF v d]
  have "heap (snd (delete 1 ?srv Campaigns 0 ?s)) ! 0 =
      Obj (set_prop [(''advertiserId'', V_Str ''3''), (''campaignId'', V_Str ''7'')]
             ''entityStatus'' (V_Str ''ENTITY_STATUS_ARCHIVED''))"
    by blast
  then have a: "heap (snd (delete 1 ?srv Campaigns 0 ?s)) ! 0 =
      Obj [(''advertiserId'', V_Str ''3''), (''campaignId'', V_Str ''7''),
           (''entityStatus'', V_Str ''ENTITY_STATUS_ARCHIVED'')]"
    by simp
  have b: "fst (delete 1 ?srv Campaigns 0 ?s) = Throws (Error ''denied'')" by code_simp
  from a b show ?thesis by (simp only: simp_thms)
qed

section \<open>Properties of deleteEntries_ and deleteSheetRows\<close>

lemma nths_cong_on:
  "(\<And>i. i < length xs \<Longrightarrow> (i \<in> A) = (i \<in> B)) \<Longrightarrow> nths xs A = nths xs B"
  unfolding nths_def
  by (rule arg_cong [where f = "map fst"], rule filter_cong) (auto simp: set_zip)

lemma nths_remove_row:
  assumes "n < length rows"
  shows "nths (take n rows @ drop (Suc n) rows) B =
         nths rows {i. (i < n \<and> i \<in> B) \<or> (n < i \<and> i - 1 \<in> B)}"
proof -
  define C where "C = {i. (i < n \<and> i \<in> B) \<or> (n < i \<and> i - 1 \<in> B)}"
  define t where "t = take n rows"
  define d where "d = drop (Suc n) rows"
  from assms have r: "rows = t @ (rows ! n) # d"
    by (simp add: t_def d_def id_take_nth_drop)
  have l: "length t = n" using assms by (simp add: t_def)
  have 1: "nths t C = nths t B"
    by (rule nths_cong_on) (auto simp: l C_def)
  have 2: "{j. Suc j + n \<in> C} = {j. j + n \<in> B}"
    by (auto simp: C_def)
  have 3: "0 + n \<notin> C" by (simp add: C_def)
  have "nths (t @ (rows ! n) # d) C = nths t B @ nths d {j. j + n \<in> B}"
    using 1 2 3 by (simp add: nths_append nths_Cons l)
  also have "\<dots> = nths (t @ d) B"
    by (simp add: nths_append l)
  finally show ?thesis
    using r by (simp add: C_def t_def d_def)
qed

lemma reindexedRows_Cons:
  "reindexedRows (n # ns) = n # reindexedRows (map (\<lambda>m. m - 1) ns)"
proof -
  have "[0..<Suc (length ns)] = 0 # map Suc [0..<length ns]"
    by (simp add: upt_conv_Cons map_Suc_upt del: upt_Suc)
  then show ?thesis
    by (simp add: reindexedRows_def zip_map1 zip_map2 case_prod_beta del: upt_Suc)
qed

lemma reindexedRows_nth:
  "reindexedRows nums = map (\<lambda>k. nums ! k - int k) [0..<length nums]"
  by (rule nth_equalityI) (simp_all add: reindexedRows_def)

lemma deleteRows_sorted:
  assumes "sorted_wrt (<) nums" and "\<forall>n\<in>set nums. 1 \<le> n \<and> n \<le> int (length rows)"
  shows "deleteRows (reindexedRows nums) s rows =
           (Inr (), s\<lparr>trace := trace s @ map SheetDeleteRow (reindexedRows nums)\<rparr>,
            nths rows {i. int i + 1 \<notin> set nums})"
  using assms
proof (induction "length nums" arbitrary: nums s rows)
  case 0
  then show ?case by (simp add: reindexedRows_def nths_all)
next
  case (Suc k)
  then obtain n ns where nums: "nums = n # ns" and k: "k = length ns"
    by (cases nums) auto
  let ?dec = "map (\<lambda>m. m - 1) ns"
  let ?rows1 = "take (nat n - 1) rows @ drop (nat n) rows"
  let ?s1 = "s\<lparr>trace := trace s @ [SheetDeleteRow n]\<rparr>"
  from Suc.prems nums have n: "1 \<le> n" "n \<le> int (length rows)" by simp_all
  then have d: "deleteRow n rows = Some ?rows1" by (simp add: deleteRow_def)
  from n have len: "length ?rows1 = length rows - 1" by auto
  from Suc.prems nums have gt: "\<forall>m\<in>set ns. n < m" by simp
  from Suc.prems nums have s1: "sorted_wrt (<) ?dec"
    by (simp add: sorted_wrt_map)
  from k have k1: "k = length ?dec" by simp
  from Suc.prems nums gt n len have b1: "\<forall>m\<in>set ?dec. 1 \<le> m \<and> m \<le> int (length ?rows1)"
    by auto
  from Suc.hyps(1) [OF k1 s1 b1, of ?s1]
  have ih: "deleteRows (reindexedRows ?dec) ?s1 ?rows1 =
      (Inr (), ?s1\<lparr>trace := trace ?s1 @ map SheetDeleteRow (reindexedRows ?dec)\<rparr>,
       nths ?rows1 {i. int i + 1 \<notin> set ?dec})" .
  from n have nn: "nat n - 1 < length rows" "Suc (nat n - 1) = nat n" by auto
  from nths_remove_row [OF nn(1), of "{i. int i + 1 \<notin> set ?dec}"] nn(2)
  have "nths ?rows1 {i. int i + 1 \<notin> set ?dec} =
      nths rows {i. (i < nat n - 1 \<and> int i + 1 \<notin> set ?dec)
                  \<or> (nat n - 1 < i \<and> int (i - 1) + 1 \<notin> set ?dec)}"
    by simp
  also have "{i. (i < nat n - 1 \<and> int i + 1 \<notin> set ?dec)
                  \<or> (nat n - 1 < i \<and> int (i - 1) + 1 \<notin> set ?dec)}
      = {i. int i + 1 \<notin> set (n # ns)}"
  proof (rule set_eqI)
    fix i :: nat
    have dec: "(x \<in> set ?dec) = (x + 1 \<in> set ns)" for x
    proof
      assume "x \<in> set ?dec"
      then obtain m where "m \<in> set ns" "x = m - 1" by auto
      then show "x + 1 \<in> set ns" by simp
    next
      assume "x + 1 \<in> set ns"
      then have "(x + 1) - 1 \<in> (\<lambda>m. m - 1) ` set ns" by (rule imageI)
      then show "x \<in> set ?dec" by simp
    qed
    consider "i < nat n - 1" | "i = nat n - 1" | "nat n - 1 < i" by linarith
    then show "(i \<in> {i. (i < nat n - 1 \<and> int i + 1 \<notin> set ?dec)
                  \<or> (nat n - 1 < i \<and> int (i - 1) + 1 \<notin> set ?dec)})
      = (i \<in> {i. int i + 1 \<notin> set (n # ns)})"
    proof cases
      case 1
      with n have lt: "int i + 1 < n" by linarith
      with gt have a: "int i + 1 \<notin> set ns" by auto
      from lt gt have "int i + 1 + 1 \<notin> set ns" by auto
      with dec [of "int i + 1"] have b: "int i + 1 \<notin> set ?dec" by blast
      from 1 a b lt show ?thesis by auto
    next
      case 2
      with n show ?thesis by auto
    next
      case 3
      with n have e: "int (i - 1) + 1 = int i" and ne: "int i + 1 \<noteq> n" by auto
      from dec [of "int i"] have "(int i \<notin> set ?dec) = (int i + 1 \<notin> set ns)" by blast
      with 3 e ne show ?thesis by (simp del: set_map)
    qed
  qed
  finally have rows_eq: "nths ?rows1 {i. int i + 1 \<notin> set ?dec} =
      nths rows {i. int i + 1 \<notin> set (n # ns)}" .
  from ih rows_eq show ?case
    by (simp add: nums reindexedRows_Cons d Let_def)
qed

lemma delete_trace:
  assumes "delete pages srv res e s = (r, s2)"
  shows "\<exists>reqs. trace s2 = trace s @ map Request reqs"
proof -
  obtain ru s1 where u: "update pages srv res e (archive_status e s) = (ru, s1)"
    by (cases "update pages srv res e (archive_status e s)")
  from update_result [OF u] obtain rg sg where
    g: "get pages srv res e (archive_status e s) = (rg, sg)"
    and c: "s1 = sg \<or> (\<exists>reqs. trace s1 = trace sg @ map Request reqs)" by blast
  from get_trace [OF g] obtain gets where tg: "trace sg = trace s @ map Request gets"
    by (auto simp: trace_archive_status)
  from c have "\<exists>reqs. trace s1 = trace s @ map Request reqs"
  proof
    assume "s1 = sg"
    with tg show ?thesis by blast
  next
    assume "\<exists>reqs. trace s1 = trace sg @ map Request reqs"
    then obtain reqs where "trace s1 = trace sg @ map Request reqs" by blast
    with tg have "trace s1 = trace s @ map Request (gets @ reqs)" by simp
    then show ?thesis by blast
  qed
  then obtain reqs where t1: "trace s1 = trace s @ map Request reqs" by blast
  show ?thesis
  proof (cases ru)
    case (Returns v)
    with u assms delete_after_update [of pages srv res e s v s1]
    have "executeGenericRequest pages srv (buildSingleEntityUri (heap s1) res e)
             DELETE None no_callback () s1 = (r, s2)" by simp
    from executeGenericRequest_trace [OF this] obtain dels where
      "trace s2 = trace s1 @ map Request dels" by blast
    with t1 have "trace s2 = trace s @ map Request (reqs @ dels)" by simp
    then show ?thesis by blast
  next
    case (Throws err)
    with u assms t1 show ?thesis by (auto simp: delete_def Let_def)
  next
    case Unfinished
    with u assms t1 show ?thesis by (auto simp: delete_def Let_def)
  qed
qed

lemma deleteEntries_rows_result:
  "deleteEntries_rows pages srv sh ds acc s = (Returns nums, s1) \<Longrightarrow>
     nums = acc @ map (\<lambda>data. int (sheetIndex data) + rangeStartRow sh)
                    (deleted_rows pages srv sh ds s)
     \<and> (\<exists>evs. trace s1 = trace s @ evs \<and> (\<forall>e\<in>set evs. \<forall>n. e \<noteq> SheetDeleteRow n))"
proof (induction ds arbitrary: acc s)
  case Nil
  then show ?case by simp
next
  case (Cons data rest)
  obtain r sd where d: "delete pages srv (dv360resource sh) (payload data) s = (r, sd)"
    by (cases "delete pages srv (dv360resource sh) (payload data) s")
  from delete_trace [OF d] obtain reqs where t: "trace sd = trace s @ map Request reqs" by blast
  show ?case
  proof (cases r)
    case (Throws e)
    let ?s2 = "handleAPIError sh data e sd"
    from Cons.prems d Throws
    have "deleteEntries_rows pages srv sh rest acc ?s2 = (Returns nums, s1)" by simp
    from Cons.IH [OF this] obtain evs where
      n: "nums = acc @ map (\<lambda>data. int (sheetIndex data) + rangeStartRow sh)
                         (deleted_rows pages srv sh rest ?s2)"
      and e: "trace s1 = trace ?s2 @ evs" "\<forall>e\<in>set evs. \<forall>n. e \<noteq> SheetDeleteRow n" by blast
    from e t have "trace s1 = trace s @ (map Request reqs @
        [SheetWrite (int (sheetIndex data) + rangeStartRow sh) (getLogsColumnNumber sh) [error_message e]] @ evs)"
      by (simp add: handleAPIError_def writeIntoSheetRow_def)
    moreover from e have "\<forall>x\<in>set (map Request reqs @
        [SheetWrite (int (sheetIndex data) + rangeStartRow sh) (getLogsColumnNumber sh) [error_message e]] @ evs).
        \<forall>n. x \<noteq> SheetDeleteRow n" by auto
    ultimately show ?thesis using n d Throws by (simp del: append_assoc)
  next
    case (Returns u)
    let ?rn = "int (sheetIndex data) + rangeStartRow sh"
    let ?s2 = "writeIntoSheetRow ?rn (getLogsColumnNumber sh) [''DELETED''] sd"
    from Cons.prems d Returns
    have "deleteEntries_rows pages srv sh rest (acc @ [?rn]) ?s2 = (Returns nums, s1)"
      by (simp add: Let_def)
    from Cons.IH [OF this] obtain evs where
      n: "nums = (acc @ [?rn]) @ map (\<lambda>data. int (sheetIndex data) + rangeStartRow sh)
                                   (deleted_rows pages srv sh rest ?s2)"
      and e: "trace s1 = trace ?s2 @ evs" "\<forall>e\<in>set evs. \<forall>n. e \<noteq> SheetDeleteRow n" by blast
    from e t have "trace s1 = trace s @ (map Request reqs @
        [SheetWrite ?rn (getLogsColumnNumber sh) [''DELETED'']] @ evs)"
      by (simp add: writeIntoSheetRow_def)
    moreover from e have "\<forall>x\<in>set (map Request reqs @
        [SheetWrite ?rn (getLogsColumnNumber sh) [''DELETED'']] @ evs).
        \<forall>n. x \<noteq> SheetDeleteRow n" by auto
    ultimately show ?thesis using n d Returns by (simp del: append_assoc)
  next
    case Unfinished
    with Cons.prems d show ?thesis by simp
  qed
qed

lemma deleted_rows_subset: "set (deleted_rows pages srv sh ds s) \<subseteq> set ds"
proof (induction ds arbitrary: s)
  case Nil
  then show ?case by simp
next
  case (Cons data rest)
  then show ?case
    by (cases "delete pages srv (dv360resource sh) (payload data) s")
       (auto split: result.splits)
qed

lemma deleted_rows_sorted:
  "sorted_wrt (<) (map sheetIndex ds) \<Longrightarrow>
     sorted_wrt (<) (map sheetIndex (deleted_rows pages srv sh ds s))"
proof (induction ds arbitrary: s)
  case Nil
  then show ?case by simp
next
  case (Cons data rest)
  then show ?case
    using deleted_rows_subset [of pages srv sh rest]
    by (cases "delete pages srv (dv360resource sh) (payload data) s")
       (fastforce split: result.splits)
qed

text \<open>
  The claim C9 as stated fails in the order of the removals: for the scheduled rows 5
  and 7, \<open>deleteSheetRows\<close> first removes row 5 and then row 6, which is the row that
  was row 7 before the first removal shifted it.
\<close>

theorem deleteSheetRows_removes_in_ascending_order:
  "reindexedRows [5, 7] = [5, 6]
   \<and> deleteSheetRows [5, 7] \<lparr>heap = [], trace = []\<rparr>
        [''r1'', ''r2'', ''r3'', ''r4'', ''r5'', ''r6'', ''r7'', ''r8'']
     = (Inr (), \<lparr>heap = [], trace = [SheetDeleteRow 5, SheetDeleteRow 6]\<rparr>,
        [''r1'', ''r2'', ''r3'', ''r4'', ''r6'', ''r8''])"
  by code_simp

text \<open>
  Claim C9, amended. \<open>deleteEntries_\<close> goes through the rows in sheet order (\<open>objectData\<close>
  has increasing sheet indices, as \<open>uploadChanges\<close> passes it), all of them are rows of
  the sheet, and the pass over them ends. The row numbers it schedules are those of
  the rows whose call of \<open>delete\<close> returned, in increasing order. No row is removed
  while the rows are gone through: the removals are the last events of the trace, after
  every request. They are applied in increasing order, the one at position \<open>k\<close> to the
  scheduled number minus \<open>k\<close>, which makes up for the rows removed before it, and what
  is left of the sheet is exactly the rows whose number was not scheduled.
\<close>

theorem deleteEntries_removes_deleted_rows:
  assumes "sorted_wrt (<) (map sheetIndex objectData)"
    and "\<forall>data\<in>set objectData.
           1 \<le> int (sheetIndex data) + rangeStartRow sh
           \<and> int (sheetIndex data) + rangeStartRow sh \<le> int (length rows)"
    and "deleteEntries_rows pages srv sh objectData [] s = (Returns nums, s1)"
  shows "nums = map (\<lambda>data. int (sheetIndex data) + rangeStartRow sh)
                  (deleted_rows pages srv sh objectData s)
       \<and> sorted_wrt (<) nums
       \<and> (\<forall>e\<in>set (drop (length (trace s)) (trace s1)). \<forall>n. e \<noteq> SheetDeleteRow n)
       \<and> deleteEntries pages srv sh objectData s rows =
           (Returns (),
            s1\<lparr>trace := trace s1
                 @ map SheetDeleteRow (map (\<lambda>k. nums ! k - int k) [0..<length nums])\<rparr>,
            nths rows {i. int i + 1 \<notin> set nums})"
proof -
  let ?rn = "\<lambda>data. int (sheetIndex data) + rangeStartRow sh"
  from deleteEntries_rows_result [OF assms(3)] obtain evs where
    n: "nums = map ?rn (deleted_rows pages srv sh objectData s)"
    and t: "trace s1 = trace s @ evs" "\<forall>e\<in>set evs. \<forall>n. e \<noteq> SheetDeleteRow n"
    by auto
  from deleted_rows_sorted [OF assms(1), of pages srv sh s]
  have "sorted_wrt (<) (map sheetIndex (deleted_rows pages srv sh objectData s))" .
  then have so: "sorted_wrt (<) nums"
    by (simp add: n sorted_wrt_map)
  from assms(2) deleted_rows_subset [of pages srv sh objectData s]
  have bo: "\<forall>m\<in>set nums. 1 \<le> m \<and> m \<le> int (length rows)"
    by (auto simp: n)
  from t have 4: "\<forall>e\<in>set (drop (length (trace s)) (trace s1)). \<forall>n. e \<noteq> SheetDeleteRow n"
    by simp
  from deleteRows_sorted [OF so bo, of s1] assms(3)
  have 5: "deleteEntries pages srv sh objectData s rows =
             (Returns (),
              s1\<lparr>trace := trace s1
                   @ map SheetDeleteRow (map (\<lambda>k. nums ! k - int k) [0..<length nums])\<rparr>,
              nths rows {i. int i + 1 \<notin> set nums})"
    by (simp add: deleteEntries_def deleteSheetRows_def reindexedRows_nth [symmetric])
  from n so 4 5 show ?thesis by blast
qed

theorem deleteEntries_removes_deleted_rows_witness:
  "deleted_rows 1
      (constant_service (J_Obj [(''advertiserId'', J_Str ''3'')]))
      \<lparr>dv360resource = Campaigns, rangeStartRow = 5,
       headerFields = [''advertiserId'', ''campaignId'', ''_logs'', ''action'']\<rparr>
      [\<lparr>payload = 0, sheetIndex = 1, action = ''DELETE'', targetingOptions = []\<rparr>,
       \<lparr>payload = 1, sheetIndex = 2, action = ''DELETE'', targetingOptions = []\<rparr>]
      \<lparr>heap = [Obj [(''advertiserId'', V_Str ''3''), (''campaignId'', V_Str ''7'')],
               Obj [(''advertiserId'', V_Str ''3''), (''campaignId'', V_Str ''9'')]],
       trace = []\<rparr>
    = [\<lparr>payload = 0, sheetIndex = 1, action = ''DELETE'', targetingOptions = []\<rparr>,
       \<lparr>payload = 1, sheetIndex = 2, action = ''DELETE'', targetingOptions = []\<rparr>]
   \<and> fst (deleteEntries 1
      (constant_service (J_Obj [(''advertiserId'', J_Str ''3'')]))
      \<lparr>dv360resource = Campaigns, rangeStartRow = 5,
       headerFields = [''advertiserId'', ''campaignId'', ''_logs'', ''action'']\<rparr>
      [\<lparr>payload = 0, sheetIndex = 1, action = ''DELETE'', targetingOptions = []\<rparr>,
       \<lparr>payload = 1, sheetIndex = 2, action = ''DELETE'', targetingOptions = []\<rparr>]
      \<lparr>heap = [Obj [(''advertiserId'', V_Str ''3''), (''campaignId'', V_Str ''7'')],
               Obj [(''advertiserId'', V_Str ''3''), (''campaignId'', V_Str ''9'')]],
       trace = []\<rparr>
      [''r1'', ''r2'', ''r3'', ''r4'', ''r5'', ''r6'', ''r7'', ''r8'']) = Returns ()
   \<and> snd (snd (deleteEntries 1
      (constant_service (J_Obj [(''advertiserId'', J_Str ''3'')]))
      \<lparr>dv360resource = Campaigns, rangeStartRow = 5,
       headerFields = [''advertiserId'', ''campaignId'', ''_logs'', ''action'']\<rparr>
      [\<lparr>payload = 0, sheetIndex = 1, action = ''DELETE'', targetingOptions = []\<rparr>,
       \<lparr>payload = 1, sheetIndex = 2, action = ''DELETE'', targetingOptions = []\<rparr>]
      \<lparr>heap = [Obj [(''advertiserId'', V_Str ''3''), (''campaignId'', V_Str ''7'')],
               Obj [(''advertiserId'', V_Str ''3''), (''campaignId'', V_Str ''9'')]],
       trace = []\<rparr>
      [''r1'', ''r2'', ''r3'', ''r4'', ''r5'', ''r6'', ''r7'', ''r8'']))
   = [''r1'', ''r2'', ''r3'', ''r4'', ''r5'', ''r8'']"
proof -
  let ?srv = "constant_service (J_Obj [(''advertiserId'', J_Str ''3'')])"
  let ?sh = "\<lparr>dv360resource = Campaigns, rangeStartRow = 5,
       headerFields = [''advertiserId'', ''campaignId'', ''_logs'', ''action'']\<rparr>"
  let ?d1 = "\<lparr>payload = 0, sheetIndex = 1, action = ''DELETE'', targetingOptions = []\<rparr>"
  let ?d2 = "\<lparr>payload = 1, sheetIndex = 2, action = ''DELETE'', targetingOptions = []\<rparr>"
  let ?s = "\<lparr>heap = [Obj [(''advertiserId'', V_Str ''3''), (''campaignId'', V_Str ''7'')],
               Obj [(''advertiserId'', V_Str ''3''), (''campaignId'', V_Str ''9'')]],
       trace = []\<rparr>"
  let ?rows = "[''r1'', ''r2'', ''r3'', ''r4'', ''r5'', ''r6'', ''r7'', ''r8'']"
  define t1 where "t1 = snd (delete 1 ?srv Campaigns 0 ?s)"
  define t2 where "t2 = snd (delete 1 ?srv Campaigns 1 (writeIntoSheetRow 6 3 [''DELETED''] t1))"
  have h1: "sorted_wrt (<) (map sheetIndex [?d1, ?d2])" by simp
  have h2: "\<forall>data\<in>set [?d1, ?d2].
           1 \<le> int (sheetIndex data) + rangeStartRow ?sh
           \<and> int (sheetIndex data) + rangeStartRow ?sh \<le> int (length ?rows)"
    by simp
  have "fst (delete 1 ?srv Campaigns 0 ?s) = Returns ()" by code_simp
  then have e1: "delete 1 ?srv Campaigns 0 ?s = (Returns (), t1)"
    by (simp add: prod_eq_iff t1_def)
  have "fst (delete 1 ?srv Campaigns 1
          (writeIntoSheetRow 6 3 [''DELETED''] (snd (delete 1 ?srv Campaigns 0 ?s)))) = Returns ()"
    by code_simp
  then have e2: "delete 1 ?srv Campaigns 1 (writeIntoSheetRow 6 3 [''DELETED''] t1) = (Returns (), t2)"
    by (simp add: prod_eq_iff t1_def t2_def)
  have lc: "getLogsColumnNumber ?sh = 3" by (simp add: getLogsColumnNumber_def)
  have dr: "deleted_rows 1 ?srv ?sh [?d1, ?d2] ?s = [?d1, ?d2]"
    by (simp add: lc e1 [unfolded One_nat_def] e2 [unfolded One_nat_def])
  have er: "deleteEntries_rows 1 ?srv ?sh [?d1, ?d2] [] ?s
      = (Returns [6, 7], writeIntoSheetRow 7 3 [''DELETED''] t2)"
    by (simp add: lc e1 [unfolded One_nat_def] e2 [unfolded One_nat_def])
  from deleteEntries_removes_deleted_rows [OF h1 h2 er]
  have d: "deleteEntries 1 ?srv ?sh [?d1, ?d2] ?s ?rows =
             (Returns (),
              (writeIntoSheetRow 7 3 [''DELETED''] t2)
                \<lparr>trace := trace (writeIntoSheetRow 7 3 [''DELETED''] t2)
                   @ map SheetDeleteRow (map (\<lambda>k. [6, 7] ! k - int k) [0..<length [6, 7 :: int]])\<rparr>,
              nths ?rows {i. int i + 1 \<notin> set [6, 7]})"
    by blast
  have "nths ?rows {i. int i + 1 \<notin> set [6, 7]} = [''r1'', ''r2'', ''r3'', ''r4'', ''r5'', ''r8'']"
    by (simp add: nths_def)
  with d have "fst (deleteEntries 1 ?srv ?sh [?d1, ?d2] ?s ?rows) = Returns ()"
    and "snd (snd (deleteEntries 1 ?srv ?sh [?d1, ?d2] ?s ?rows)) = [''r1'', ''r2'', ''r3'', ''r4'', ''r5'', ''r8'']"
    by simp_all
  with dr show ?thesis by (simp only: simp_thms)
qed

end
